theory Spec2Isabelle
  imports
    Main
    "HOL-Library.Char_ord"
    "HOL-Library.List_Lexorder"
    "HOL-Library.Finite_Map"
    "HOL-Library.AList"
begin

section \<open>Python values used by the analysis code\<close>

text \<open>
  A Python \<open>str\<close> is a \<open>string\<close>: the list of the bytes of its UTF-8 encoding. The
  order on strings (\<open>List_Lexorder\<close> over \<open>Char_ord\<close>) is the lexicographic order on
  bytes, which for UTF-8 is the order on code points that \<open>sorted\<close> uses.
\<close>

datatype error = KeyError string

text \<open>
  \<open>str.strip()\<close> removes the white-space characters at both ends. The white space of a
  Python \<open>str\<close> is U+0009..U+000D, U+001C..U+001F, U+0020, U+0085, U+00A0, U+1680,
  U+2000..U+200A, U+2028, U+2029, U+202F, U+205F and U+3000; \<open>whitespace\<close> lists their
  UTF-8 encodings. No encoding is a prefix of another and an encoding only occurs at a
  character boundary, so removing encodings at the ends of the bytes removes characters.
\<close>

definition whitespace :: "string list" where
  "whitespace =
     [[CHR 0x09], [CHR 0x0A], [CHR 0x0B], [CHR 0x0C], [CHR 0x0D],
      [CHR 0x1C], [CHR 0x1D], [CHR 0x1E], [CHR 0x1F], [CHR 0x20],
      [CHR 0xC2, CHR 0x85], [CHR 0xC2, CHR 0xA0],
      [CHR 0xE1, CHR 0x9A, CHR 0x80],
      [CHR 0xE2, CHR 0x80, CHR 0x80], [CHR 0xE2, CHR 0x80, CHR 0x81],
      [CHR 0xE2, CHR 0x80, CHR 0x82], [CHR 0xE2, CHR 0x80, CHR 0x83],
      [CHR 0xE2, CHR 0x80, CHR 0x84], [CHR 0xE2, CHR 0x80, CHR 0x85],
      [CHR 0xE2, CHR 0x80, CHR 0x86], [CHR 0xE2, CHR 0x80, CHR 0x87],
      [CHR 0xE2, CHR 0x80, CHR 0x88], [CHR 0xE2, CHR 0x80, CHR 0x89],
      [CHR 0xE2, CHR 0x80, CHR 0x8A],
      [CHR 0xE2, CHR 0x80, CHR 0xA8], [CHR 0xE2, CHR 0x80, CHR 0xA9],
      [CHR 0xE2, CHR 0x80, CHR 0xAF],
      [CHR 0xE2, CHR 0x81, CHR 0x9F],
      [CHR 0xE3, CHR 0x80, CHR 0x80]]"

text \<open>The number of bytes of the encoding in \<open>ws\<close> that \<open>s\<close> starts with; 0 when there is none.\<close>

definition leading :: "string list \<Rightarrow> string \<Rightarrow> nat" where
  "leading ws s =
     (case find (\<lambda>w. w \<noteq> [] \<and> take (length w) s = w) ws of
        None \<Rightarrow> 0
      | Some w \<Rightarrow> length w)"

function lstrip_of :: "string list \<Rightarrow> string \<Rightarrow> string" where
  "lstrip_of ws s = (if leading ws s = 0 then s else lstrip_of ws (drop (leading ws s) s))"
  by pat_completeness auto
termination
proof (relation "measure (\<lambda>(ws, s). length s)")
  show "wf (measure (\<lambda>(ws, s). length s))" by simp
next
  fix ws :: "string list" and s :: string
  assume pos: "leading ws s \<noteq> 0"
  have "s \<noteq> []"
  proof
    assume "s = []"
    then have "find (\<lambda>w. w \<noteq> [] \<and> take (length w) s = w) ws = None"
      by (auto simp: find_None_iff)
    then have "leading ws s = 0" by (simp add: leading_def)
    with pos show False by simp
  qed
  with pos show "((ws, drop (leading ws s) s), (ws, s)) \<in> measure (\<lambda>(ws, s). length s)"
    by simp
qed

declare lstrip_of.simps [simp del]

text \<open>The right end is stripped on the reversed bytes, with the encodings reversed.\<close>

definition strip :: "string \<Rightarrow> string" where
  "strip s = rev (lstrip_of (map rev whitespace) (rev (lstrip_of whitespace s)))"

text \<open>
  \<open>str.lower()\<close> is Python's built-in Unicode lower-casing; its case tables are not part of
  the repository. Every function that calls it takes it as its first parameter \<open>lower\<close>,
  and every property below holds for whatever function that is.
\<close>

type_synonym str_lower = "string \<Rightarrow> string"

text \<open>\<open>sep.join(xs)\<close>.\<close>

fun join :: "string \<Rightarrow> string list \<Rightarrow> string" where
  "join sep [] = []"
| "join sep [x] = x"
| "join sep (x # y # ys) = x @ sep @ join sep (y # ys)"

text \<open>\<open>token in text\<close> on strings: \<open>token\<close> occurs as a contiguous substring.\<close>

fun contains :: "string \<Rightarrow> string \<Rightarrow> bool" where
  "contains [] token = (token = [])"
| "contains (c # cs) token = (take (length token) (c # cs) = token \<or> contains cs token)"

text \<open>Truth value of an \<open>Optional[str]\<close>: \<open>None\<close> and the empty string are false.\<close>

fun truthy :: "string option \<Rightarrow> bool" where
  "truthy None = False"
| "truthy (Some s) = (s \<noteq> [])"

text \<open>\<open>s or default\<close> for an \<open>Optional[str]\<close>.\<close>

fun or_default :: "string option \<Rightarrow> string \<Rightarrow> string" where
  "or_default None d = d"
| "or_default (Some s) d = (if s \<noteq> [] then s else d)"

section \<open>models.py\<close>

datatype ComplianceStatus = COMPLIANT | UNCLEAR | NON_COMPLIANT

fun colour :: "ComplianceStatus \<Rightarrow> string" where
  "colour COMPLIANT = ''GREEN''"
| "colour UNCLEAR = ''YELLOW''"
| "colour NON_COMPLIANT = ''RED''"

datatype Severity = HIGH | MEDIUM | LOW

record WitnessStatement =
  name :: string
  signed :: bool
  dated :: bool
  date :: "string option"

record DisclosurePackage =
  informant_statement_provided :: bool
  witness_statements :: "WitnessStatement list"
  prior_convictions_disclosed :: bool
  physical_exhibit_list_provided :: bool
  exhibits_identified :: bool
  exhibit_descriptions_complete :: bool
  disclosure_timing_compliant :: "bool option"
  timing_notes :: "string option"

definition missing_mandatory_items :: "DisclosurePackage \<Rightarrow> string list" where
  "missing_mandatory_items self =
     (if \<not> informant_statement_provided self then [''informant statement''] else []) @
     (if witness_statements self = [] then [''witness statements''] else []) @
     (if \<not> prior_convictions_disclosed self then [''prior convictions history''] else []) @
     (if \<not> physical_exhibit_list_provided self then [''physical evidence list''] else [])"

definition unsigned_or_undated_statements :: "DisclosurePackage \<Rightarrow> string list" where
  "unsigned_or_undated_statements self =
     map WitnessStatement.name
       (filter (\<lambda>statement. \<not> signed statement \<or> \<not> dated statement) (witness_statements self))"

record PreliminaryTestRecord =
  statutory_authority :: "string option"
  authority_is_ambiguous :: bool
  reason_to_believe_detail :: "string option"
  directions_compliance_language :: bool
  directions_documented :: bool
  oral_directions_documented :: bool
  subject_literate :: bool
  proper_performance_indicators :: "string list"
  evidentiary_test_compliant :: "bool option"
  device_approval_number :: "string option"
  calibration_records :: "string list"
  maintenance_records :: "string list"
  test_time :: "string option"
  driving_time :: "string option"
  time_reference_notes :: "string list"

text \<open>\<open>bool(s and s.strip())\<close> for an \<open>Optional[str]\<close>.\<close>

fun stripped_truthy :: "string option \<Rightarrow> bool" where
  "stripped_truthy None = False"
| "stripped_truthy (Some s) = (s \<noteq> [] \<and> strip s \<noteq> [])"

definition has_reason_to_believe :: "PreliminaryTestRecord \<Rightarrow> bool" where
  "has_reason_to_believe self = stripped_truthy (reason_to_believe_detail self)"

definition has_statutory_authority :: "PreliminaryTestRecord \<Rightarrow> bool" where
  "has_statutory_authority self = stripped_truthy (statutory_authority self)"

definition has_proper_performance_indicators :: "PreliminaryTestRecord \<Rightarrow> bool" where
  "has_proper_performance_indicators self = (proper_performance_indicators self \<noteq> [])"

text \<open>
  \<open>bool(self.calibration_records or self.maintenance_records)\<close>: the \<open>or\<close> of two lists is
  the first when it is non-empty and the second otherwise; a list is true when non-empty.
\<close>

definition calibration_complete :: "PreliminaryTestRecord \<Rightarrow> bool" where
  "calibration_complete self =
     ((if calibration_records self \<noteq> [] then calibration_records self
       else maintenance_records self) \<noteq> [])"

record HearsayEntry =
  description :: string
  exception_claimed :: "string option"
  exception_supported :: bool
  business_record :: bool

record BusinessRecordEntry =
  description :: string
  exception_established :: bool
  foundation_details :: "string option"

record EvidenceProfile =
  hearsay_items :: "HearsayEntry list"
  business_records :: "BusinessRecordEntry list"
  hearsay_review_documented :: bool
  s137_analysis_documented :: bool
  s137_prejudice_factors :: "string list"
  s138_exclusion_factors :: "string list"
  s138_mitigation_steps :: "string list"

definition hearsay_without_exception :: "EvidenceProfile \<Rightarrow> string list" where
  "hearsay_without_exception self =
     map HearsayEntry.description
       (filter (\<lambda>item. exception_claimed item = None \<or> \<not> exception_supported item)
          (hearsay_items self))"

definition business_records_without_foundation :: "EvidenceProfile \<Rightarrow> string list" where
  "business_records_without_foundation self =
     map BusinessRecordEntry.description
       (filter (\<lambda>record. \<not> exception_established record) (business_records self))"

definition has_unlawful_obtainment_risk :: "EvidenceProfile \<Rightarrow> bool" where
  "has_unlawful_obtainment_risk self =
     (s138_exclusion_factors self \<noteq> [] \<and> s138_mitigation_steps self = [])"

text \<open>
  \<open>key_dates\<close> is a \<open>Dict[str, str]\<close>: a finite map. The normalisation helpers build a
  Python set by comprehension.
\<close>

record DocumentProfile =
  name :: string
  disclosure :: DisclosurePackage
  preliminary_test :: PreliminaryTestRecord
  evidence :: EvidenceProfile
  statutory_references :: "string list"
  facts :: "string list"
  procedural_steps :: "string list"
  key_dates :: "(string, string) fmap"
  terminology_issues :: "string list"
  typographical_issues :: "string list"
  contextual_gaps :: "string list"

definition normalised :: "str_lower \<Rightarrow> string list \<Rightarrow> string set" where
  "normalised lower xs = set (map (\<lambda>x. lower (strip x)) (filter (\<lambda>x. strip x \<noteq> []) xs))"

definition normalised_statutory_refs :: "str_lower \<Rightarrow> DocumentProfile \<Rightarrow> string set" where
  "normalised_statutory_refs lower self = normalised lower (statutory_references self)"

definition normalised_facts :: "str_lower \<Rightarrow> DocumentProfile \<Rightarrow> string set" where
  "normalised_facts lower self = normalised lower (facts self)"

definition normalised_procedures :: "str_lower \<Rightarrow> DocumentProfile \<Rightarrow> string set" where
  "normalised_procedures lower self = normalised lower (procedural_steps self)"

definition material_elements :: "DocumentProfile \<Rightarrow> string set" where
  "material_elements self = set (
     (if has_statutory_authority (preliminary_test self)
      then [''statutory authority recorded''] else []) @
     (if has_reason_to_believe (preliminary_test self)
      then [''reason to believe documented''] else []) @
     (if directions_compliance_language (preliminary_test self)
      then [''55D directions language''] else []) @
     (if directions_documented (preliminary_test self)
      then [''directions recorded''] else []) @
     (if oral_directions_documented (preliminary_test self)
      then [''oral directions given''] else []) @
     (if has_proper_performance_indicators (preliminary_test self)
      then [''proper performance indicators''] else []) @
     (if truthy (device_approval_number (preliminary_test self))
      then [''device approval number''] else []) @
     (if calibration_complete (preliminary_test self)
      then [''calibration records''] else []) @
     (if truthy (test_time (preliminary_test self))
      then [''test time recorded''] else []) @
     (if truthy (driving_time (preliminary_test self))
      then [''driving time recorded''] else []) @
     (if missing_mandatory_items (disclosure self) = []
      then [''mandatory disclosure complete''] else []) @
     (if unsigned_or_undated_statements (disclosure self) = []
      then [''statements signed and dated''] else []) @
     (if exhibits_identified (disclosure self)
      then [''exhibits identified''] else []) @
     (if exhibit_descriptions_complete (disclosure self)
      then [''exhibit descriptions complete''] else []) @
     (if hearsay_without_exception (evidence self) = []
      then [''hearsay exceptions satisfied''] else []))"

record CheckStatus =
  status :: ComplianceStatus
  message :: string
  missing_items :: "string list"

record CrossReferenceRow =
  statutory_provision :: string
  doc_a :: CheckStatus
  doc_b :: CheckStatus
  discrepancies :: string
  action_required :: string

record Defect =
  document :: string
  description :: string
  severity :: Severity
  statutory_reference :: "string option"

record DefectReport =
  high :: "Defect list"
  medium :: "Defect list"
  low :: "Defect list"

text \<open>\<open>DefectReport.add\<close> appends in place; the model returns the updated report.\<close>

definition add :: "DefectReport \<Rightarrow> Defect \<Rightarrow> DefectReport" where
  "add self defect =
     (if severity defect = HIGH then self\<lparr>high := high self @ [defect]\<rparr>
      else if severity defect = MEDIUM then self\<lparr>medium := medium self @ [defect]\<rparr>
      else self\<lparr>low := low self @ [defect]\<rparr>)"

record OmissionsReport =
  elements_only_in_a :: "string list"
  statutory_refs_only_in_a :: "string list"
  facts_only_in_a :: "string list"
  procedures_only_in_a :: "string list"
  targeted_omissions :: "(string \<times> bool) list"

record PhaseBReport =
  cross_reference_matrix :: "CrossReferenceRow list"
  defects :: DefectReport
  omissions :: OmissionsReport

section \<open>phase\_b.py: the provision evaluators\<close>

record StatutoryProvision =
  key :: string
  label :: string
  checker :: "DocumentProfile \<Rightarrow> CheckStatus"

text \<open>\<open>CheckStatus(status, message)\<close> leaves \<open>missing_items\<close> at its default, the empty list.\<close>

definition disclosure_items :: "DocumentProfile \<Rightarrow> CheckStatus" where
  "disclosure_items doc =
     (let missing = missing_mandatory_items (disclosure doc) in
      if missing \<noteq> [] then
        \<lparr>status = NON_COMPLIANT, message = ''Mandatory disclosure items missing'',
         missing_items = missing\<rparr>
      else \<lparr>status = COMPLIANT, message = ''Mandatory disclosure complete'',
            missing_items = []\<rparr>)"

definition statement_execution :: "DocumentProfile \<Rightarrow> CheckStatus" where
  "statement_execution doc =
     (let unsigned = unsigned_or_undated_statements (disclosure doc) in
      if unsigned \<noteq> [] then
        \<lparr>status = NON_COMPLIANT, message = ''Witness statements require signatures/dates'',
         missing_items = unsigned\<rparr>
      else if witness_statements (disclosure doc) = [] then
        \<lparr>status = UNCLEAR, message = ''No witness statements supplied'', missing_items = []\<rparr>
      else \<lparr>status = COMPLIANT, message = ''All witness statements executed'',
            missing_items = []\<rparr>)"

definition disclosure_timing :: "DocumentProfile \<Rightarrow> CheckStatus" where
  "disclosure_timing doc =
     (case disclosure_timing_compliant (disclosure doc) of
        Some True \<Rightarrow>
          \<lparr>status = COMPLIANT, message = ''Disclosure served within s.186 timeframe'',
           missing_items = []\<rparr>
      | Some False \<Rightarrow>
          \<lparr>status = NON_COMPLIANT,
           message = or_default (timing_notes (disclosure doc)) ''timing non-compliant'',
           missing_items = []\<rparr>
      | None \<Rightarrow>
          \<lparr>status = UNCLEAR, message = ''Disclosure timing not recorded'',
           missing_items = []\<rparr>)"

definition exhibit_identification :: "DocumentProfile \<Rightarrow> CheckStatus" where
  "exhibit_identification doc =
     (if exhibits_identified (disclosure doc) then
        (if exhibit_descriptions_complete (disclosure doc) then
           \<lparr>status = COMPLIANT, message = ''Exhibits identified and described'',
            missing_items = []\<rparr>
         else \<lparr>status = UNCLEAR, message = ''Exhibits identified but descriptions incomplete'',
               missing_items = []\<rparr>)
      else if physical_exhibit_list_provided (disclosure doc) then
        \<lparr>status = NON_COMPLIANT, message = ''Exhibit list provided without identifiers'',
         missing_items = []\<rparr>
      else \<lparr>status = UNCLEAR, message = ''No exhibits disclosed'', missing_items = []\<rparr>)"

definition statutory_authority_check :: "DocumentProfile \<Rightarrow> CheckStatus" where
  "statutory_authority_check doc =
     (let preliminary = preliminary_test doc in
      if has_statutory_authority preliminary \<and> \<not> authority_is_ambiguous preliminary then
        \<lparr>status = COMPLIANT, message = ''Statutory authority recorded'', missing_items = []\<rparr>
      else if authority_is_ambiguous preliminary \<and> has_statutory_authority preliminary then
        \<lparr>status = UNCLEAR, message = ''Authority cited but basis described as ambiguous'',
         missing_items = []\<rparr>
      else \<lparr>status = NON_COMPLIANT,
            message = ''Statutory authority for the preliminary test absent'',
            missing_items = []\<rparr>)"

definition reason_to_believe :: "DocumentProfile \<Rightarrow> CheckStatus" where
  "reason_to_believe doc =
     (if has_reason_to_believe (preliminary_test doc) then
        \<lparr>status = COMPLIANT, message = ''Reason to believe articulated'', missing_items = []\<rparr>
      else \<lparr>status = NON_COMPLIANT,
            message = ''No s.49(1) reasonable belief particulars provided'',
            missing_items = []\<rparr>)"

definition directions_language :: "DocumentProfile \<Rightarrow> CheckStatus" where
  "directions_language doc =
     (let preliminary = preliminary_test doc;
          missing =
            (if \<not> directions_compliance_language preliminary
             then [[CHR 0x22] @ ''in accordance with directions'' @ [CHR 0x22] @ '' language'']
             else []) @
            (if \<not> directions_documented preliminary
             then [''record of directions given''] else [])
      in if missing = [] then
           \<lparr>status = COMPLIANT, message = ''Directions documented per s.55D(1)'',
            missing_items = []\<rparr>
         else \<lparr>status = NON_COMPLIANT, message = ''Directions compliance not established'',
               missing_items = missing\<rparr>)"

definition oral_directions :: "DocumentProfile \<Rightarrow> CheckStatus" where
  "oral_directions doc =
     (let preliminary = preliminary_test doc in
      if \<not> subject_literate preliminary then
        (if oral_directions_documented preliminary then
           \<lparr>status = COMPLIANT, message = ''Oral directions provided out of caution'',
            missing_items = []\<rparr>
         else \<lparr>status = COMPLIANT, message = ''Oral directions not mandated'',
               missing_items = []\<rparr>)
      else if oral_directions_documented preliminary then
        \<lparr>status = COMPLIANT, message = ''Oral directions documented for literate subject'',
         missing_items = []\<rparr>
      else \<lparr>status = NON_COMPLIANT,
            message = ''No record of oral directions for literate subject'',
            missing_items = []\<rparr>)"

definition proper_performance :: "DocumentProfile \<Rightarrow> CheckStatus" where
  "proper_performance doc =
     (let preliminary = preliminary_test doc;
          missing =
            (if \<not> has_proper_performance_indicators preliminary
             then [''performance indicators''] else []) @
            (if \<not> truthy (device_approval_number preliminary)
             then [''device approval number''] else []) @
            (if \<not> calibration_complete preliminary
             then [''calibration/maintenance records''] else [])
      in if missing = [] then
           \<lparr>status = COMPLIANT, message = ''Proper performance established under s.55E'',
            missing_items = []\<rparr>
         else \<lparr>status = NON_COMPLIANT, message = ''Proper performance information incomplete'',
               missing_items = missing\<rparr>)"

definition evidentiary_test :: "DocumentProfile \<Rightarrow> CheckStatus" where
  "evidentiary_test doc =
     (case evidentiary_test_compliant (preliminary_test doc) of
        Some True \<Rightarrow>
          \<lparr>status = COMPLIANT, message = ''Evidentiary test requirements met'',
           missing_items = []\<rparr>
      | Some False \<Rightarrow>
          \<lparr>status = NON_COMPLIANT,
           message = ''Evidentiary test departed from statutory requirements'',
           missing_items = []\<rparr>
      | None \<Rightarrow>
          \<lparr>status = UNCLEAR, message = ''No evidentiary test information recorded'',
           missing_items = []\<rparr>)"

definition hearsay_flagged :: "DocumentProfile \<Rightarrow> CheckStatus" where
  "hearsay_flagged doc =
     (if hearsay_items (evidence doc) \<noteq> [] \<or> hearsay_review_documented (evidence doc)
      then \<lparr>status = COMPLIANT, message = ''Hearsay issues identified under s.59'',
            missing_items = []\<rparr>
      else \<lparr>status = UNCLEAR, message = ''No hearsay review documented'',
            missing_items = []\<rparr>)"

definition hearsay_exceptions :: "DocumentProfile \<Rightarrow> CheckStatus" where
  "hearsay_exceptions doc =
     (let unsupported = hearsay_without_exception (evidence doc) in
      if unsupported \<noteq> [] then
        \<lparr>status = NON_COMPLIANT, message = ''Hearsay exception not demonstrated'',
         missing_items = unsupported\<rparr>
      else if hearsay_items (evidence doc) \<noteq> [] then
        \<lparr>status = COMPLIANT, message = ''Hearsay exceptions articulated'', missing_items = []\<rparr>
      else \<lparr>status = COMPLIANT, message = ''No hearsay evidence tendered'',
            missing_items = []\<rparr>)"

definition business_records_check :: "DocumentProfile \<Rightarrow> CheckStatus" where
  "business_records_check doc =
     (let unsupported = business_records_without_foundation (evidence doc) in
      if unsupported \<noteq> [] then
        \<lparr>status = NON_COMPLIANT, message = ''Business records exception unsupported'',
         missing_items = unsupported\<rparr>
      else if business_records (evidence doc) \<noteq> [] then
        \<lparr>status = COMPLIANT, message = ''Business records foundation established'',
         missing_items = []\<rparr>
      else \<lparr>status = UNCLEAR, message = ''No business records disclosed'',
            missing_items = []\<rparr>)"

definition section_137 :: "DocumentProfile \<Rightarrow> CheckStatus" where
  "section_137 doc =
     (if s137_prejudice_factors (evidence doc) \<noteq> [] then
        (if s137_analysis_documented (evidence doc) then
           \<lparr>status = COMPLIANT, message = ''s.137 balancing undertaken'', missing_items = []\<rparr>
         else \<lparr>status = UNCLEAR,
               message = ''s.137 discretion triggered without documented balancing'',
               missing_items = s137_prejudice_factors (evidence doc)\<rparr>)
      else \<lparr>status = COMPLIANT, message = ''No s.137 prejudice concerns raised'',
            missing_items = []\<rparr>)"

definition section_138 :: "DocumentProfile \<Rightarrow> CheckStatus" where
  "section_138 doc =
     (if has_unlawful_obtainment_risk (evidence doc) then
        \<lparr>status = NON_COMPLIANT,
         message = ''Potentially improperly obtained evidence with no mitigation'',
         missing_items = s138_exclusion_factors (evidence doc)\<rparr>
      else if s138_exclusion_factors (evidence doc) \<noteq> [] then
        \<lparr>status = UNCLEAR, message = ''Improper obtainment issues noted with mitigation'',
         missing_items = s138_exclusion_factors (evidence doc)\<rparr>
      else \<lparr>status = COMPLIANT, message = ''No s.138 issues identified'',
            missing_items = []\<rparr>)"

text \<open>The labels hold an en dash (U+2013), three bytes in UTF-8.\<close>

definition en_dash :: string where
  "en_dash = [CHR 0xE2, CHR 0x80, CHR 0x93]"

definition provision :: "string \<Rightarrow> string \<Rightarrow> string \<Rightarrow> (DocumentProfile \<Rightarrow> CheckStatus)
    \<Rightarrow> StatutoryProvision" where
  "provision k act title f = \<lparr>key = k, label = act @ '' '' @ en_dash @ '' '' @ title, checker = f\<rparr>"

definition PROVISIONS :: "StatutoryProvision list" where
  "PROVISIONS =
   [provision ''CPA_DISCLOSURE'' ''CPA 2009 Part 3.3'' ''Disclosure package'' disclosure_items,
    provision ''CPA_STATEMENTS'' ''CPA 2009 Part 3.3'' ''Witness statements executed''
      statement_execution,
    provision ''CPA_TIMING'' ''CPA 2009 s.186'' ''Disclosure timing'' disclosure_timing,
    provision ''CPA_EXHIBITS'' ''CPA 2009 Part 3.3'' ''Exhibit identification''
      exhibit_identification,
    provision ''RSA_AUTHORITY'' ''RSA 1986 s.49(1)'' ''Statutory authority recorded''
      statutory_authority_check,
    provision ''RSA_REASON'' ''RSA 1986 s.49(1)'' ''Reasonable belief articulated''
      reason_to_believe,
    provision ''RSA_55D1'' ''RSA 1986 s.55D(1)'' ''Directions compliance'' directions_language,
    provision ''RSA_55D2'' ''RSA 1986 s.55D(2)'' ''Oral directions for literate subject''
      oral_directions,
    provision ''RSA_55E'' ''RSA 1986 s.55E'' ''Proper performance'' proper_performance,
    provision ''RSA_55_1'' ''RSA 1986 s.55(1)'' ''Evidentiary test compliance'' evidentiary_test,
    provision ''EA_59'' ''Evidence Act 2008 s.59'' ''Hearsay flagged'' hearsay_flagged,
    provision ''EA_60_69'' ''Evidence Act 2008 ss.60-69'' ''Hearsay exceptions''
      hearsay_exceptions,
    provision ''EA_69'' ''Evidence Act 2008 s.69'' ''Business records foundation''
      business_records_check,
    provision ''EA_137'' ''Evidence Act 2008 s.137'' ''Probative vs prejudicial'' section_137,
    provision ''EA_138'' ''Evidence Act 2008 s.138'' ''Improperly obtained evidence''
      section_138]"

text \<open>
  The dict comprehension of \<open>_evaluate_document\<close>: a dict keeps its keys in insertion
  order, and storing under a key already present replaces the value in place, which is
  \<open>AList.update\<close>.
\<close>

definition evaluate_document :: "DocumentProfile \<Rightarrow> (string \<times> CheckStatus) list" where
  "evaluate_document doc =
     fold (\<lambda>p d. AList.update (key p) (checker p doc) d) PROVISIONS []"

section \<open>phase\_b.py: the cross-reference matrix\<close>

text \<open>
  Where a function of the source has the name of a record field, the function is renamed:
  \<open>_statutory_authority\<close> is \<open>statutory_authority_check\<close>, \<open>_business_records\<close> is
  \<open>business_records_check\<close>, \<open>_action_required\<close> is \<open>action_required_for\<close> and
  \<open>_omissions\<close> is \<open>omissions_between\<close>.
\<close>

definition summarise_discrepancies :: "CheckStatus \<Rightarrow> CheckStatus \<Rightarrow> string" where
  "summarise_discrepancies a b =
     (let missing_a = set (missing_items a);
          missing_b = set (missing_items b);
          missing_diff = (missing_a - missing_b) \<union> (missing_b - missing_a);
          parts =
            (if status a \<noteq> status b
             then [''Status differs (Doc A: '' @ colour (status a) @ '', Doc B: '' @
                   colour (status b) @ '')'']
             else []) @
            (if missing_diff \<noteq> {}
             then [''Missing elements differ: '' @ join '', '' (sorted_list_of_set missing_diff)]
             else [])
      in if parts \<noteq> [] then join ''; '' parts else ''None'')"

definition action_required_for :: "str_lower \<Rightarrow> string \<Rightarrow> CheckStatus \<Rightarrow> string" where
  "action_required_for lower lbl st =
     (if status st = COMPLIANT then []
      else if missing_items st \<noteq> [] then
        lbl @ '': '' @ (if status st = NON_COMPLIANT then ''obtain'' else ''clarify'') @ '' '' @
        join '', '' (missing_items st)
      else
        lbl @ '': '' @ (if status st = NON_COMPLIANT then ''rectify'' else ''clarify'') @ '' '' @
        lower (message st))"

text \<open>\<open>d[k]\<close> on a dict raises \<open>KeyError\<close> when the key is absent.\<close>

definition getitem :: "(string \<times> 'v) list \<Rightarrow> string \<Rightarrow> error + 'v" where
  "getitem d k = (case map_of d k of None \<Rightarrow> Inl (KeyError k) | Some v \<Rightarrow> Inr v)"

definition cross_reference_row :: "str_lower \<Rightarrow> StatutoryProvision \<Rightarrow> CheckStatus \<Rightarrow> CheckStatus
    \<Rightarrow> CrossReferenceRow" where
  "cross_reference_row lower p status_a status_b =
     (let actions = filter (\<lambda>action. action \<noteq> [])
                      [action_required_for lower ''Doc A'' status_a,
                       action_required_for lower ''Doc B'' status_b]
      in \<lparr>statutory_provision = label p,
          doc_a = status_a,
          doc_b = status_b,
          discrepancies = summarise_discrepancies status_a status_b,
          action_required = (if actions \<noteq> [] then join '' | '' actions else ''None'')\<rparr>)"

text \<open>The loop over \<open>PROVISIONS\<close>; a failed lookup ends it with the error.\<close>

fun cross_reference_rows :: "str_lower \<Rightarrow> (string \<times> CheckStatus) list \<Rightarrow> (string \<times> CheckStatus) list
    \<Rightarrow> StatutoryProvision list \<Rightarrow> error + CrossReferenceRow list" where
  "cross_reference_rows lower results_a results_b [] = Inr []"
| "cross_reference_rows lower results_a results_b (p # ps) =
     (case getitem results_a (key p) of
        Inl e \<Rightarrow> Inl e
      | Inr status_a \<Rightarrow>
          (case getitem results_b (key p) of
             Inl e \<Rightarrow> Inl e
           | Inr status_b \<Rightarrow>
               (case cross_reference_rows lower results_a results_b ps of
                  Inl e \<Rightarrow> Inl e
                | Inr rows \<Rightarrow> Inr (cross_reference_row lower p status_a status_b # rows))))"

definition build_cross_reference :: "str_lower \<Rightarrow> DocumentProfile \<Rightarrow> DocumentProfile
    \<Rightarrow> error + CrossReferenceRow list" where
  "build_cross_reference lower a b =
     cross_reference_rows lower (evaluate_document a) (evaluate_document b) PROVISIONS"

section \<open>phase\_b.py: defects and omissions\<close>

definition detect_vague_temporal_references :: "str_lower \<Rightarrow> PreliminaryTestRecord \<Rightarrow> bool" where
  "detect_vague_temporal_references lower preliminary =
     (let candidates = concat (map (\<lambda>t. case t of None \<Rightarrow> [] | Some s \<Rightarrow> if s \<noteq> [] then [s] else [])
                                 [test_time preliminary, driving_time preliminary])
      in list_ex (\<lambda>entry. list_ex (\<lambda>token. contains (lower entry) token)
                    [''approx'', ''about'', ''circa'', ''unknown'', ''around''])
           candidates
         \<or> time_reference_notes preliminary \<noteq> [])"

definition core_steps :: "string set" where
  "core_steps = {''vehicle stop'', ''directions provided'', ''test administered'',
                 ''results recorded''}"

definition identify_doc_defects :: "str_lower \<Rightarrow> DocumentProfile \<Rightarrow> Defect list" where
  "identify_doc_defects lower doc =
     (let nm = DocumentProfile.name doc;
          prelim = preliminary_test doc;
          disc = disclosure doc;
          evid = evidence doc;
          unsigned = unsigned_or_undated_statements disc;
          mandatory_missing = missing_mandatory_items disc;
          hearsay = hearsay_without_exception evid;
          missing_steps = sorted_list_of_set
                            (Set.filter (\<lambda>step. step \<notin> normalised_procedures lower doc) core_steps)
      in
      (if \<not> has_statutory_authority prelim then
         [\<lparr>document = nm, description = ''Missing statutory authority for preliminary test'',
           severity = HIGH, statutory_reference = Some ''RSA 1986 s.49(1)''\<rparr>] else []) @
      (if \<not> has_reason_to_believe prelim then
         [\<lparr>document = nm, description = ''Absent reason to believe justification'',
           severity = HIGH, statutory_reference = Some ''RSA 1986 s.49(1)''\<rparr>] else []) @
      (if \<not> directions_documented prelim then
         [\<lparr>document = nm, description = ''No evidence of directions given'',
           severity = HIGH, statutory_reference = Some ''RSA 1986 s.55D''\<rparr>] else []) @
      (if \<not> has_proper_performance_indicators prelim then
         [\<lparr>document = nm, description = ''Missing proper performance indicators'',
           severity = HIGH, statutory_reference = Some ''RSA 1986 s.55E''\<rparr>] else []) @
      (if unsigned \<noteq> [] then
         [\<lparr>document = nm,
           description = ''Unsigned/undated witness statements: '' @ join '', '' unsigned,
           severity = HIGH, statutory_reference = Some ''CPA 2009 Part 3.3''\<rparr>] else []) @
      (if mandatory_missing \<noteq> [] then
         [\<lparr>document = nm,
           description = ''Missing mandatory disclosure items: '' @ join '', '' mandatory_missing,
           severity = HIGH, statutory_reference = Some ''CPA 2009 Part 3.3''\<rparr>] else []) @
      (if hearsay \<noteq> [] then
         [\<lparr>document = nm, description = ''Hearsay without exception: '' @ join '', '' hearsay,
           severity = HIGH, statutory_reference = Some ''Evidence Act 2008''\<rparr>] else []) @
      (if has_unlawful_obtainment_risk evid then
         [\<lparr>document = nm, description = ''Indicators of unlawfully obtained evidence'',
           severity = HIGH, statutory_reference = Some ''Evidence Act 2008 s.138''\<rparr>] else []) @
      (if detect_vague_temporal_references lower prelim then
         [\<lparr>document = nm, description = ''Vague temporal references in test chronology'',
           severity = MEDIUM, statutory_reference = Some ''RSA 1986''\<rparr>] else []) @
      (if authority_is_ambiguous prelim then
         [\<lparr>document = nm, description = ''Ambiguous authority claims'',
           severity = MEDIUM, statutory_reference = Some ''RSA 1986 s.49''\<rparr>] else []) @
      (if missing_steps \<noteq> [] then
         [\<lparr>document = nm,
           description = ''Incomplete procedural description (missing: '' @
                         join '', '' missing_steps @ '')'',
           severity = MEDIUM, statutory_reference = None\<rparr>] else []) @
      (if physical_exhibit_list_provided disc \<and> \<not> exhibit_descriptions_complete disc then
         [\<lparr>document = nm, description = ''Missing exhibit descriptions'',
           severity = MEDIUM, statutory_reference = Some ''CPA 2009 Part 3.3''\<rparr>] else []) @
      (if typographical_issues doc \<noteq> [] then
         [\<lparr>document = nm,
           description = ''Typographical ambiguities: '' @ join '', '' (typographical_issues doc),
           severity = LOW, statutory_reference = None\<rparr>] else []) @
      (if terminology_issues doc \<noteq> [] then
         [\<lparr>document = nm,
           description = ''Unclear terminology: '' @ join '', '' (terminology_issues doc),
           severity = LOW, statutory_reference = None\<rparr>] else []) @
      (if contextual_gaps doc \<noteq> [] then
         [\<lparr>document = nm,
           description = ''Incomplete contextual details: '' @ join '', '' (contextual_gaps doc),
           severity = LOW, statutory_reference = None\<rparr>] else []))"

text \<open>The defect that the cross-document loop reports for one key.\<close>

definition inconsistent_date_defect :: "string \<Rightarrow> string \<Rightarrow> string \<Rightarrow> Defect" where
  "inconsistent_date_defect k date_a date_b =
     \<lparr>document = ''Doc A & Doc B'',
      description = ''Inconsistent '' @ k @ '' date: Doc A '' @ date_a @ '' vs Doc B '' @ date_b,
      severity = MEDIUM, statutory_reference = None\<rparr>"

text \<open>
  The loop over the sorted shared keys, on the report built so far; \<open>key_dates[key]\<close> raises
  \<open>KeyError\<close> when the key is absent.
\<close>

fun shared_dates_loop :: "DocumentProfile \<Rightarrow> DocumentProfile \<Rightarrow> string list \<Rightarrow> DefectReport
    \<Rightarrow> error + DefectReport" where
  "shared_dates_loop a b [] report = Inr report"
| "shared_dates_loop a b (k # ks) report =
     (case fmlookup (key_dates a) k of
        None \<Rightarrow> Inl (KeyError k)
      | Some date_a \<Rightarrow>
          (case fmlookup (key_dates b) k of
             None \<Rightarrow> Inl (KeyError k)
           | Some date_b \<Rightarrow>
               shared_dates_loop a b ks
                 (if date_a \<noteq> [] \<and> date_b \<noteq> [] \<and> date_a \<noteq> date_b
                  then add report (inconsistent_date_defect k date_a date_b)
                  else report)))"

definition identify_defects :: "str_lower \<Rightarrow> DocumentProfile \<Rightarrow> DocumentProfile \<Rightarrow> error + DefectReport" where
  "identify_defects lower a b =
     (let report0 = \<lparr>high = [], medium = [], low = []\<rparr>;
          report1 = fold (\<lambda>defect report. add report defect) (identify_doc_defects lower a) report0;
          report2 = fold (\<lambda>defect report. add report defect) (identify_doc_defects lower b) report1;
          shared_dates = fmdom (key_dates a) |\<inter>| fmdom (key_dates b)
      in shared_dates_loop a b (sorted_list_of_fset shared_dates) report2)"

definition targeted_omission :: "bool \<Rightarrow> bool" where
  "targeted_omission flag = flag"

definition omissions_between :: "str_lower \<Rightarrow> DocumentProfile \<Rightarrow> DocumentProfile \<Rightarrow> OmissionsReport" where
  "omissions_between lower a b =
     (let pa = preliminary_test a; pb = preliminary_test b in
      \<lparr>elements_only_in_a = sorted_list_of_set (material_elements a - material_elements b),
       statutory_refs_only_in_a =
         sorted_list_of_set (normalised_statutory_refs lower a - normalised_statutory_refs lower b),
       facts_only_in_a = sorted_list_of_set (normalised_facts lower a - normalised_facts lower b),
       procedures_only_in_a =
         sorted_list_of_set (normalised_procedures lower a - normalised_procedures lower b),
       targeted_omissions =
         [(''s55d_in_accordance_language'',
           targeted_omission
             (directions_compliance_language pa \<and> \<not> directions_compliance_language pb)),
          (''s49_reason_to_believe'',
           targeted_omission (has_reason_to_believe pa \<and> \<not> has_reason_to_believe pb)),
          (''s55e_device_approval_number'',
           targeted_omission
             (truthy (device_approval_number pa) \<and> \<not> truthy (device_approval_number pb))),
          (''s55e_calibration_records'',
           targeted_omission (calibration_complete pa \<and> \<not> calibration_complete pb)),
          (''test_vs_drive_time_alignment'',
           targeted_omission
             ((truthy (test_time pa) \<and> truthy (driving_time pa)) \<and>
              \<not> (truthy (test_time pb) \<and> truthy (driving_time pb))))]\<rparr>)"

definition build_phase_b_report :: "str_lower \<Rightarrow> DocumentProfile \<Rightarrow> DocumentProfile \<Rightarrow> error + PhaseBReport" where
  "build_phase_b_report lower a b =
     (case build_cross_reference lower a b of
        Inl e \<Rightarrow> Inl e
      | Inr matrix \<Rightarrow>
          (case identify_defects lower a b of
             Inl e \<Rightarrow> Inl e
           | Inr found \<Rightarrow>
               Inr \<lparr>cross_reference_matrix = matrix, defects = found,
                    omissions = omissions_between lower a b\<rparr>))"

section \<open>court\_knowledge.py: procedure stages and the disclosure matrix\<close>

record ChecklistItem =
  key :: string
  description :: string
  statute :: "string option"
  "notes" :: "string option"

record ProcedureStage =
  name :: string
  items :: "ChecklistItem list"

text \<open>\<open>ChecklistItem(key, description, statute)\<close>; \<open>notes\<close> keeps its default \<open>None\<close>.\<close>

definition checklist_item :: "string \<Rightarrow> string \<Rightarrow> string option \<Rightarrow> ChecklistItem" where
  "checklist_item k d s = \<lparr>key = k, description = d, statute = s, notes = None\<rparr>"

definition CONTEST_MENTION_STAGE :: ProcedureStage where
  "CONTEST_MENTION_STAGE =
     \<lparr>name = ''contest_mention'',
      items =
        [checklist_item ''charge_sheet_filed'' ''Prosecution filed charge sheet''
           (Some ''Criminal Procedure Act 2009 (Vic) s.6''),
         checklist_item ''disclosure_provided_in_time'' ''Disclosure provided within timeframes''
           (Some ''Criminal Procedure Act 2009 (Vic) s.186''),
         checklist_item ''defence_plea_indicated'' ''Defence indicated plea'' None,
         checklist_item ''defence_notice_of_defences'' ''Defence provided notice of defences''
           (Some ''Criminal Procedure Act 2009 (Vic) s.185'')]\<rparr>"

definition SUMMARY_CASE_CONFERENCE :: ProcedureStage where
  "SUMMARY_CASE_CONFERENCE =
     \<lparr>name = ''summary_case_conference'',
      items =
        [checklist_item ''issues_identified'' ''Issues identified and narrowed'' None,
         checklist_item ''admissions_made'' ''Admissions made'' None,
         checklist_item ''disclosure_complete'' ''Disclosure complete'' None]\<rparr>"

definition SUMMARY_HEARING_STAGE :: ProcedureStage where
  "SUMMARY_HEARING_STAGE =
     \<lparr>name = ''summary_hearing'',
      items =
        [checklist_item ''prosecution_case_outline'' ''Prosecution case outline filed'' None,
         checklist_item ''witness_availability_confirmed'' ''Witness availability confirmed'' None,
         checklist_item ''voir_dire_foreshadowed'' ''Voir dire applications foreshadowed'' None]\<rparr>"

text \<open>
  \<open>MagistratesCourtProcedureChecker.__init__\<close> builds the dict \<open>self.stages\<close> by a
  comprehension over the three stages.
\<close>

record MagistratesCourtProcedureChecker =
  stages :: "(string \<times> ProcedureStage) list"

definition new_checker :: MagistratesCourtProcedureChecker where
  "new_checker =
     \<lparr>stages = fold (\<lambda>stage d. AList.update (ProcedureStage.name stage) stage d)
                  [CONTEST_MENTION_STAGE, SUMMARY_CASE_CONFERENCE, SUMMARY_HEARING_STAGE] []\<rparr>"

text \<open>
  \<open>provided\<close> is a \<open>Mapping[str, bool]\<close>; \<open>bool(provided.get(k))\<close> is true exactly when
  the key is present with the value \<open>True\<close>.
\<close>

definition missing_from :: "(string \<rightharpoonup> bool) \<Rightarrow> ChecklistItem list \<Rightarrow> ChecklistItem list" where
  "missing_from provided its = filter (\<lambda>item. \<not> (provided (key item) = Some True)) its"

definition evaluate_stage :: "MagistratesCourtProcedureChecker \<Rightarrow> string \<Rightarrow> (string \<rightharpoonup> bool)
    \<Rightarrow> error + ChecklistItem list" where
  "evaluate_stage self stage_name provided =
     (if stage_name \<notin> set (map fst (stages self))
      then Inl (KeyError (''Unknown procedure stage: '' @ stage_name))
      else (case getitem (stages self) stage_name of
              Inl e \<Rightarrow> Inl e
            | Inr stage \<Rightarrow> Inr (missing_from provided (items stage))))"

definition DISCLOSURE_COMPLIANCE_MATRIX :: "(string \<times> ChecklistItem list) list" where
  "DISCLOSURE_COMPLIANCE_MATRIX =
     [(''prosecution'',
       [checklist_item ''informant_statement'' ''Copy of informant's statement''
          (Some ''Criminal Procedure Act 2009 (Vic) s.187''),
        checklist_item ''witness_statements'' ''Copies of all witness statements''
          (Some ''Criminal Procedure Act 2009 (Vic) s.187''),
        checklist_item ''exhibit_list'' ''List of exhibits''
          (Some ''Criminal Procedure Act 2009 (Vic) s.187''),
        checklist_item ''accused_priors'' ''Accused's prior convictions''
          (Some ''Criminal Procedure Act 2009 (Vic) s.187''),
        checklist_item ''exculpatory_material'' ''Any exculpatory material''
          (Some ''Criminal Procedure Act 2009 (Vic) s.187''),
        checklist_item ''prosecution_timing'' ''Timing compliance''
          (Some ''Criminal Procedure Act 2009 (Vic) s.186'')]),
      (''defence'',
       [checklist_item ''alibi_notice'' ''Alibi notice (if applicable)''
          (Some ''Criminal Procedure Act 2009 (Vic) s.185''),
        checklist_item ''expert_evidence_notice'' ''Expert evidence notice''
          (Some ''Criminal Procedure Act 2009 (Vic) s.185''),
        checklist_item ''defence_witnesses'' ''Witnesses to be called''
          (Some ''Criminal Procedure Act 2009 (Vic) s.185''),
        checklist_item ''defence_timing'' ''Timing compliance''
          (Some ''Criminal Procedure Act 2009 (Vic) s.185'')])]"

definition evaluate_disclosure_section :: "string \<Rightarrow> (string \<rightharpoonup> bool)
    \<Rightarrow> error + ChecklistItem list" where
  "evaluate_disclosure_section section provided =
     (if section \<notin> set (map fst DISCLOSURE_COMPLIANCE_MATRIX)
      then Inl (KeyError (''Unknown disclosure section: '' @ section))
      else (case getitem DISCLOSURE_COMPLIANCE_MATRIX section of
              Inl e \<Rightarrow> Inl e
            | Inr its \<Rightarrow> Inr (missing_from provided its)))"

section \<open>The documents of tests/test\_phase\_b.py\<close>

text \<open>
  The examples below are evaluated with \<open>ascii_lower\<close> for the parameter \<open>lower\<close>: it
  maps \<open>A..Z\<close> to \<open>a..z\<close> and keeps every other byte, which is what \<open>str.lower()\<close>
  computes on the ASCII strings of these documents.
\<close>

definition lower_char :: "char \<Rightarrow> char" where
  "lower_char c =
     (if CHR ''A'' \<le> c \<and> c \<le> CHR ''Z'' then char_of (of_char c + (32::nat)) else c)"

definition ascii_lower :: str_lower where
  "ascii_lower s = map lower_char s"

definition test_doc_a :: DocumentProfile where
  "test_doc_a =
     \<lparr>DocumentProfile.name = ''Doc A'',
      disclosure =
        \<lparr>informant_statement_provided = True,
         witness_statements =
           [\<lparr>WitnessStatement.name = ''Constable Lee'', signed = True, dated = True,
             date = Some ''2024-05-01''\<rparr>,
            \<lparr>WitnessStatement.name = ''Witness Patel'', signed = True, dated = True,
             date = Some ''2024-05-02''\<rparr>],
         prior_convictions_disclosed = True,
         physical_exhibit_list_provided = True,
         exhibits_identified = True,
         exhibit_descriptions_complete = True,
         disclosure_timing_compliant = Some True,
         timing_notes = Some ''Served within statutory timeframe''\<rparr>,
      preliminary_test =
        \<lparr>statutory_authority = Some ''RSA 1986 s.55(1)'',
         authority_is_ambiguous = False,
         reason_to_believe_detail = Some ''Smelt alcohol and observed lane weaving'',
         directions_compliance_language = True,
         directions_documented = True,
         oral_directions_documented = True,
         subject_literate = True,
         proper_performance_indicators = [''Mouthpiece replaced'', ''Device warmed''],
         evidentiary_test_compliant = Some True,
         device_approval_number = Some ''AS12345'',
         calibration_records = [''Calibration certificate 2024-04-01''],
         maintenance_records = [''Maintenance log 2024-03-20''],
         test_time = Some ''2024-05-10 22:15'',
         driving_time = Some ''2024-05-10 21:55'',
         time_reference_notes = []\<rparr>,
      evidence =
        \<lparr>hearsay_items =
           [\<lparr>HearsayEntry.description = ''Bystander statement'',
             exception_claimed = Some ''s.65'', exception_supported = True,
             business_record = False\<rparr>],
         business_records =
           [\<lparr>BusinessRecordEntry.description = ''Breathalyser maintenance log'',
             exception_established = True,
             foundation_details = Some ''Certified by custodian''\<rparr>],
         hearsay_review_documented = True,
         s137_analysis_documented = True,
         s137_prejudice_factors = [''Minimal prejudice''],
         s138_exclusion_factors = [],
         s138_mitigation_steps = []\<rparr>,
      statutory_references = [''CPA 2009 s.186'', ''RSA 1986 s.55D'', ''Evidence Act 2008 s.69''],
      facts = [''Driver admitted consuming alcohol'', ''Officer observed weaving''],
      procedural_steps =
        [''Vehicle stop'', ''Directions provided'', ''Test administered'', ''Results recorded''],
      key_dates = fmap_of_list [(''offence'', ''2024-05-10''), (''test'', ''2024-05-10'')],
      terminology_issues = [],
      typographical_issues = [],
      contextual_gaps = []\<rparr>"

definition test_doc_b :: DocumentProfile where
  "test_doc_b =
     \<lparr>DocumentProfile.name = ''Doc B'',
      disclosure =
        \<lparr>informant_statement_provided = False,
         witness_statements =
           [\<lparr>WitnessStatement.name = ''Constable Lee'', signed = False, dated = True,
             date = None\<rparr>],
         prior_convictions_disclosed = False,
         physical_exhibit_list_provided = True,
         exhibits_identified = False,
         exhibit_descriptions_complete = False,
         disclosure_timing_compliant = Some False,
         timing_notes = Some ''Served five days late''\<rparr>,
      preliminary_test =
        \<lparr>statutory_authority = None,
         authority_is_ambiguous = True,
         reason_to_believe_detail = Some [],
         directions_compliance_language = False,
         directions_documented = False,
         oral_directions_documented = False,
         subject_literate = True,
         proper_performance_indicators = [],
         evidentiary_test_compliant = None,
         device_approval_number = None,
         calibration_records = [],
         maintenance_records = [],
         test_time = Some ''Approx 22:00'',
         driving_time = None,
         time_reference_notes = [''Officer unsure of driving time'']\<rparr>,
      evidence =
        \<lparr>hearsay_items =
           [\<lparr>HearsayEntry.description = ''Neighbour recount'', exception_claimed = None,
             exception_supported = False, business_record = False\<rparr>],
         business_records =
           [\<lparr>BusinessRecordEntry.description = ''Maintenance log'',
             exception_established = False, foundation_details = None\<rparr>],
         hearsay_review_documented = False,
         s137_analysis_documented = False,
         s137_prejudice_factors = [''Highly prejudicial character evidence''],
         s138_exclusion_factors = [''Failure to caution''],
         s138_mitigation_steps = []\<rparr>,
      statutory_references = [''CPA 2009''],
      facts = [''Driver admitted consuming alcohol''],
      procedural_steps = [''Vehicle stop''],
      key_dates = fmap_of_list [(''offence'', ''2024-05-11'')],
      terminology_issues = [''Reference to 'sample' undefined''],
      typographical_issues = [''Date recorded as 2024-05-0''],
      contextual_gaps = [''No chain of custody narrative'']\<rparr>"

section \<open>Notation for the cross-document date check\<close>

text \<open>
  Two abbreviations used to state what the loop over the shared keys reports:
  \<open>date_conflict a b k\<close> is the test of the loop body on the key \<open>k\<close> (both documents have
  a date under \<open>k\<close>, both dates are non-empty, and they differ), and \<open>reports_key a b k d\<close>
  says that \<open>d\<close> is the defect the loop body builds for \<open>k\<close>.
\<close>

abbreviation date_conflict :: "DocumentProfile \<Rightarrow> DocumentProfile \<Rightarrow> string \<Rightarrow> bool" where
  "date_conflict a b k \<equiv>
     (\<exists>date_a date_b.
        fmlookup (key_dates a) k = Some date_a \<and> fmlookup (key_dates b) k = Some date_b
        \<and> date_a \<noteq> [] \<and> date_b \<noteq> [] \<and> date_a \<noteq> date_b)"

abbreviation reports_key :: "DocumentProfile \<Rightarrow> DocumentProfile \<Rightarrow> string \<Rightarrow> Defect \<Rightarrow> bool" where
  "reports_key a b k d \<equiv>
     (\<exists>date_a date_b.
        fmlookup (key_dates a) k = Some date_a \<and> fmlookup (key_dates b) k = Some date_b
        \<and> d = inconsistent_date_defect k date_a date_b)"

section \<open>Properties\<close>

subsection \<open>The registry and the per-document evaluation\<close>

lemma provision_sel [simp]:
  "StatutoryProvision.key (provision k a t f) = k"
  "checker (provision k a t f) = f"
  "label (provision k a t f) = a @ '' '' @ en_dash @ '' '' @ t"
  by (simp_all add: provision_def)

lemma evaluate_document_unfold:
  "evaluate_document d =
     [(''CPA_DISCLOSURE'', disclosure_items d),
      (''CPA_STATEMENTS'', statement_execution d),
      (''CPA_TIMING'', disclosure_timing d),
      (''CPA_EXHIBITS'', exhibit_identification d),
      (''RSA_AUTHORITY'', statutory_authority_check d),
      (''RSA_REASON'', reason_to_believe d),
      (''RSA_55D1'', directions_language d),
      (''RSA_55D2'', oral_directions d),
      (''RSA_55E'', proper_performance d),
      (''RSA_55_1'', evidentiary_test d),
      (''EA_59'', hearsay_flagged d),
      (''EA_60_69'', hearsay_exceptions d),
      (''EA_69'', business_records_check d),
      (''EA_137'', section_137 d),
      (''EA_138'', section_138 d)]"
  by (simp add: evaluate_document_def PROVISIONS_def)

lemma evaluate_document_registry:
  "evaluate_document d = map (\<lambda>p. (StatutoryProvision.key p, checker p d)) PROVISIONS"
  by (simp add: evaluate_document_unfold PROVISIONS_def)

lemma distinct_registry_keys: "distinct (map StatutoryProvision.key PROVISIONS)"
  by (simp add: PROVISIONS_def)

lemma lookup_evaluate_document:
  assumes "p \<in> set PROVISIONS"
  shows "map_of (evaluate_document d) (StatutoryProvision.key p) = Some (checker p d)"
proof -
  have "distinct (map fst (evaluate_document d))"
    by (simp add: evaluate_document_registry o_def distinct_registry_keys)
  moreover have "(StatutoryProvision.key p, checker p d) \<in> set (evaluate_document d)"
    using assms by (auto simp: evaluate_document_registry)
  ultimately show ?thesis by (rule map_of_is_SomeI)
qed

lemma leading_Nil: "leading ws [] = 0"
proof -
  have "find (\<lambda>w. w \<noteq> [] \<and> take (length w) [] = w) ws = None"
    by (auto simp: find_None_iff)
  then show ?thesis by (simp add: leading_def)
qed

lemma lstrip_of_Nil: "lstrip_of ws [] = []"
  by (simp add: lstrip_of.simps leading_Nil)

lemma strip_nonempty: "strip s \<noteq> [] \<Longrightarrow> s \<noteq> []"
  by (auto simp: strip_def lstrip_of_Nil)

subsection \<open>Derived predicates of the preliminary-test record\<close>

text \<open>
  C8. \<open>calibration_complete()\<close> is true exactly when \<open>calibration_records\<close> or
  \<open>maintenance_records\<close> is a non-empty list; each list alone suffices.
\<close>

theorem calibration_complete_iff:
  "calibration_complete p = (calibration_records p \<noteq> [] \<or> maintenance_records p \<noteq> [])"
  by (simp add: calibration_complete_def)

theorem calibration_complete_iff_witness:
  "calibration_complete ((preliminary_test test_doc_a)\<lparr>calibration_records := []\<rparr>)
   \<and> calibration_complete ((preliminary_test test_doc_a)\<lparr>maintenance_records := []\<rparr>)
   \<and> \<not> calibration_complete (preliminary_test test_doc_b)"
  using calibration_complete_iff [of "(preliminary_test test_doc_a)\<lparr>calibration_records := []\<rparr>"]
    calibration_complete_iff [of "(preliminary_test test_doc_a)\<lparr>maintenance_records := []\<rparr>"]
    calibration_complete_iff [of "preliminary_test test_doc_b"]
  by (simp add: test_doc_a_def test_doc_b_def)

subsection \<open>Single evaluators\<close>

text \<open>
  A statutory authority that consists of white space only, here the no-break space U+00A0,
  is empty after trimming, so the authority counts as absent.
\<close>

lemma strip_no_break_space: "strip [CHR 0xC2, CHR 0xA0] = []"
  by code_simp

lemma no_break_space_authority_absent:
  assumes "statutory_authority (preliminary_test d) = Some [CHR 0xC2, CHR 0xA0]"
  shows "status (statutory_authority_check d) = NON_COMPLIANT"
  using assms
  by (simp add: statutory_authority_check_def has_statutory_authority_def strip_no_break_space)

text \<open>
  C5. When the statutory-authority string is non-empty after trimming and the authority
  is flagged ambiguous, the evaluator registered under \<open>RSA_AUTHORITY\<close> returns the status
  \<open>UNCLEAR\<close> (so never \<open>COMPLIANT\<close>), whatever the other fields of the profile are.
\<close>

theorem rsa_authority_ambiguous_unclear:
  assumes "statutory_authority (preliminary_test d) = Some s"
    and "strip s \<noteq> []"
    and "authority_is_ambiguous (preliminary_test d)"
  shows "getitem (evaluate_document d) ''RSA_AUTHORITY'' = Inr (statutory_authority_check d)
         \<and> status (statutory_authority_check d) = UNCLEAR"
proof -
  from assms(2) have "s \<noteq> []" by (rule strip_nonempty)
  with assms have "has_statutory_authority (preliminary_test d)"
    by (simp add: has_statutory_authority_def)
  with assms(3) have "status (statutory_authority_check d) = UNCLEAR"
    by (simp add: statutory_authority_check_def)
  moreover have "getitem (evaluate_document d) ''RSA_AUTHORITY'' = Inr (statutory_authority_check d)"
    by (simp add: evaluate_document_unfold getitem_def)
  ultimately show ?thesis by simp
qed

theorem rsa_authority_ambiguous_unclear_witness:
  "statutory_authority
     (preliminary_test
        (test_doc_a\<lparr>preliminary_test :=
           (preliminary_test test_doc_a)\<lparr>authority_is_ambiguous := True\<rparr>\<rparr>))
     = Some ''RSA 1986 s.55(1)''
   \<and> strip ''RSA 1986 s.55(1)'' \<noteq> []
   \<and> status (statutory_authority_check
        (test_doc_a\<lparr>preliminary_test :=
           (preliminary_test test_doc_a)\<lparr>authority_is_ambiguous := True\<rparr>\<rparr>)) = UNCLEAR"
proof -
  let ?d = "test_doc_a\<lparr>preliminary_test :=
              (preliminary_test test_doc_a)\<lparr>authority_is_ambiguous := True\<rparr>\<rparr>"
  have h1: "statutory_authority (preliminary_test ?d) = Some ''RSA 1986 s.55(1)''"
    by (simp add: test_doc_a_def)
  have h2: "strip ''RSA 1986 s.55(1)'' \<noteq> []"
    by code_simp
  have h3: "authority_is_ambiguous (preliminary_test ?d)"
    by simp
  from rsa_authority_ambiguous_unclear [OF h1 h2 h3] h1 h2 show ?thesis
    by simp
qed

text \<open>
  C6. With no hearsay items and no documented hearsay review, the evaluator registered
  under \<open>EA_59\<close> returns \<open>UNCLEAR\<close>; and it returns \<open>NON_COMPLIANT\<close> for no profile.
\<close>

theorem ea59_never_non_compliant:
  "(hearsay_items (evidence d) = [] \<and> \<not> hearsay_review_documented (evidence d)
      \<longrightarrow> status (hearsay_flagged d) = UNCLEAR)
   \<and> status (hearsay_flagged d) \<noteq> NON_COMPLIANT
   \<and> getitem (evaluate_document d) ''EA_59'' = Inr (hearsay_flagged d)"
  by (simp add: hearsay_flagged_def evaluate_document_unfold getitem_def)

theorem ea59_never_non_compliant_witness:
  "hearsay_items (evidence (test_doc_b\<lparr>evidence := (evidence test_doc_b)\<lparr>hearsay_items := []\<rparr>\<rparr>))
     = []
   \<and> \<not> hearsay_review_documented
         (evidence (test_doc_b\<lparr>evidence := (evidence test_doc_b)\<lparr>hearsay_items := []\<rparr>\<rparr>))
   \<and> status (hearsay_flagged
         (test_doc_b\<lparr>evidence := (evidence test_doc_b)\<lparr>hearsay_items := []\<rparr>\<rparr>)) = UNCLEAR"
  using ea59_never_non_compliant
    [of "test_doc_b\<lparr>evidence := (evidence test_doc_b)\<lparr>hearsay_items := []\<rparr>\<rparr>"]
  by (simp add: test_doc_b_def)

text \<open>
  C1, as the code has it. With no business-record entries the evaluator registered under
  \<open>EA_69\<close> returns \<open>UNCLEAR\<close> with the message "No business records disclosed" and no
  missing items (its last branch), not \<open>COMPLIANT\<close>. It returns \<open>COMPLIANT\<close> when there is at least one entry and every entry
  has an established foundation, and \<open>NON_COMPLIANT\<close> when some entry lacks one.
\<close>

theorem ea69_status:
  "(business_records (evidence d) = [] \<longrightarrow>
      business_records_check d =
        \<lparr>status = UNCLEAR, message = ''No business records disclosed'', missing_items = []\<rparr>)
   \<and> (business_records (evidence d) \<noteq> []
        \<and> (\<forall>r \<in> set (business_records (evidence d)). exception_established r)
        \<longrightarrow> status (business_records_check d) = COMPLIANT)
   \<and> ((\<exists>r \<in> set (business_records (evidence d)). \<not> exception_established r)
        \<longrightarrow> status (business_records_check d) = NON_COMPLIANT)
   \<and> getitem (evaluate_document d) ''EA_69'' = Inr (business_records_check d)"
  by (auto simp: business_records_check_def business_records_without_foundation_def
      evaluate_document_unfold getitem_def filter_empty_conv)

theorem ea69_status_witness:
  "\<not> exception_established (hd (business_records (evidence test_doc_b)))
   \<and> status (business_records_check test_doc_b) = NON_COMPLIANT
   \<and> length (business_records (evidence test_doc_a)) = 1
   \<and> exception_established (hd (business_records (evidence test_doc_a)))
   \<and> status (business_records_check test_doc_a) = COMPLIANT
   \<and> business_records
       (evidence (test_doc_b\<lparr>evidence := (evidence test_doc_b)\<lparr>business_records := []\<rparr>\<rparr>)) = []
   \<and> business_records_check
       (test_doc_b\<lparr>evidence := (evidence test_doc_b)\<lparr>business_records := []\<rparr>\<rparr>) =
         \<lparr>status = UNCLEAR, message = ''No business records disclosed'', missing_items = []\<rparr>"
proof -
  let ?n = "test_doc_b\<lparr>evidence := (evidence test_doc_b)\<lparr>business_records := []\<rparr>\<rparr>"
  have hb: "\<exists>r \<in> set (business_records (evidence test_doc_b)). \<not> exception_established r"
    by (simp add: test_doc_b_def)
  have ha: "business_records (evidence test_doc_a) \<noteq> []
            \<and> (\<forall>r \<in> set (business_records (evidence test_doc_a)). exception_established r)"
    by (simp add: test_doc_a_def)
  have hn: "business_records (evidence ?n) = []"
    by simp
  from ea69_status [of test_doc_b] hb
  have "status (business_records_check test_doc_b) = NON_COMPLIANT" by blast
  moreover from ea69_status [of test_doc_a] ha
  have "status (business_records_check test_doc_a) = COMPLIANT" by blast
  moreover from ea69_status [of ?n] hn
  have "business_records_check ?n =
          \<lparr>status = UNCLEAR, message = ''No business records disclosed'', missing_items = []\<rparr>"
    by blast
  ultimately show ?thesis by (simp add: test_doc_a_def test_doc_b_def)
qed

text \<open>
  The claim C1 as it was stated fails: the first test document with its business records
  removed has no business-record entry, and \<open>EA_69\<close> returns \<open>UNCLEAR\<close> with the message
  "No business records disclosed" for it.
\<close>

theorem ea69_none_tendered_counterexample:
  "business_records
     (evidence (test_doc_a\<lparr>evidence := (evidence test_doc_a)\<lparr>business_records := []\<rparr>\<rparr>)) = []
   \<and> business_records_check
        (test_doc_a\<lparr>evidence := (evidence test_doc_a)\<lparr>business_records := []\<rparr>\<rparr>) =
          \<lparr>status = UNCLEAR, message = ''No business records disclosed'', missing_items = []\<rparr>
   \<and> status (business_records_check
        (test_doc_a\<lparr>evidence := (evidence test_doc_a)\<lparr>business_records := []\<rparr>\<rparr>)) \<noteq> COMPLIANT"
  by (simp add: business_records_check_def business_records_without_foundation_def)

subsection \<open>Compliant results carry no missing items\<close>

lemma compliant_disclosure_items:
  "status (disclosure_items d) = COMPLIANT \<Longrightarrow> missing_items (disclosure_items d) = []"
  by (simp add: disclosure_items_def Let_def split: if_splits)

lemma compliant_statement_execution:
  "status (statement_execution d) = COMPLIANT \<Longrightarrow> missing_items (statement_execution d) = []"
  by (simp add: statement_execution_def Let_def split: if_splits)

lemma compliant_disclosure_timing:
  "status (disclosure_timing d) = COMPLIANT \<Longrightarrow> missing_items (disclosure_timing d) = []"
  by (simp add: disclosure_timing_def split: option.splits bool.splits)

lemma compliant_exhibit_identification:
  "status (exhibit_identification d) = COMPLIANT \<Longrightarrow> missing_items (exhibit_identification d) = []"
  by (simp add: exhibit_identification_def split: if_splits)

lemma compliant_statutory_authority_check:
  "status (statutory_authority_check d) = COMPLIANT
   \<Longrightarrow> missing_items (statutory_authority_check d) = []"
  by (simp add: statutory_authority_check_def Let_def split: if_splits)

lemma compliant_reason_to_believe:
  "status (reason_to_believe d) = COMPLIANT \<Longrightarrow> missing_items (reason_to_believe d) = []"
  by (simp add: reason_to_believe_def split: if_splits)

lemma compliant_directions_language:
  "status (directions_language d) = COMPLIANT \<Longrightarrow> missing_items (directions_language d) = []"
  by (simp add: directions_language_def Let_def split: if_splits)

lemma compliant_oral_directions:
  "status (oral_directions d) = COMPLIANT \<Longrightarrow> missing_items (oral_directions d) = []"
  by (simp add: oral_directions_def Let_def split: if_splits)

lemma compliant_proper_performance:
  "status (proper_performance d) = COMPLIANT \<Longrightarrow> missing_items (proper_performance d) = []"
  by (simp add: proper_performance_def Let_def split: if_splits)

lemma compliant_evidentiary_test:
  "status (evidentiary_test d) = COMPLIANT \<Longrightarrow> missing_items (evidentiary_test d) = []"
  by (simp add: evidentiary_test_def split: option.splits bool.splits)

lemma compliant_hearsay_flagged:
  "status (hearsay_flagged d) = COMPLIANT \<Longrightarrow> missing_items (hearsay_flagged d) = []"
  by (simp add: hearsay_flagged_def split: if_splits)

lemma compliant_hearsay_exceptions:
  "status (hearsay_exceptions d) = COMPLIANT \<Longrightarrow> missing_items (hearsay_exceptions d) = []"
  by (simp add: hearsay_exceptions_def Let_def split: if_splits)

lemma compliant_business_records_check:
  "status (business_records_check d) = COMPLIANT
   \<Longrightarrow> missing_items (business_records_check d) = []"
  by (simp add: business_records_check_def Let_def split: if_splits)

lemma compliant_section_137:
  "status (section_137 d) = COMPLIANT \<Longrightarrow> missing_items (section_137 d) = []"
  by (simp add: section_137_def split: if_splits)

lemma compliant_section_138:
  "status (section_138 d) = COMPLIANT \<Longrightarrow> missing_items (section_138 d) = []"
  by (simp add: section_138_def split: if_splits)

lemmas compliant_checkers =
  compliant_disclosure_items compliant_statement_execution compliant_disclosure_timing
  compliant_exhibit_identification compliant_statutory_authority_check
  compliant_reason_to_believe compliant_directions_language compliant_oral_directions
  compliant_proper_performance compliant_evidentiary_test compliant_hearsay_flagged
  compliant_hearsay_exceptions compliant_business_records_check compliant_section_137
  compliant_section_138

text \<open>
  C10. For every evaluator of the registry, a result with status \<open>COMPLIANT\<close> has an empty
  \<open>missing_items\<close> list; the \<open>UNCLEAR\<close> results of \<open>EA_137\<close> and \<open>EA_138\<close> carry the
  factor lists that triggered them.
\<close>

theorem compliant_has_no_missing_items:
  "(\<forall>p \<in> set PROVISIONS.
      status (checker p d) = COMPLIANT \<longrightarrow> missing_items (checker p d) = [])
   \<and> (status (section_137 d) = UNCLEAR \<longrightarrow>
        missing_items (section_137 d) = s137_prejudice_factors (evidence d)
        \<and> missing_items (section_137 d) \<noteq> [])
   \<and> (status (section_138 d) = UNCLEAR \<longrightarrow>
        missing_items (section_138 d) = s138_exclusion_factors (evidence d)
        \<and> missing_items (section_138 d) \<noteq> [])"
proof (intro conjI)
  show "\<forall>p \<in> set PROVISIONS.
      status (checker p d) = COMPLIANT \<longrightarrow> missing_items (checker p d) = []"
    by (simp add: PROVISIONS_def compliant_checkers)
  show "status (section_137 d) = UNCLEAR \<longrightarrow>
        missing_items (section_137 d) = s137_prejudice_factors (evidence d)
        \<and> missing_items (section_137 d) \<noteq> []"
    by (simp add: section_137_def)
  show "status (section_138 d) = UNCLEAR \<longrightarrow>
        missing_items (section_138 d) = s138_exclusion_factors (evidence d)
        \<and> missing_items (section_138 d) \<noteq> []"
    by (simp add: section_138_def)
qed

theorem compliant_has_no_missing_items_witness:
  "PROVISIONS ! 13 \<in> set PROVISIONS
   \<and> status (checker (PROVISIONS ! 13) test_doc_a) = COMPLIANT
   \<and> missing_items (checker (PROVISIONS ! 13) test_doc_a) = []
   \<and> status (section_137 test_doc_b) = UNCLEAR
   \<and> missing_items (section_137 test_doc_b) = [''Highly prejudicial character evidence'']"
proof -
  have h1: "PROVISIONS ! 13 \<in> set PROVISIONS"
    by (simp add: PROVISIONS_def)
  have h2: "status (checker (PROVISIONS ! 13) test_doc_a) = COMPLIANT"
    by (simp add: PROVISIONS_def section_137_def test_doc_a_def)
  have h3: "status (section_137 test_doc_b) = UNCLEAR"
    by (simp add: section_137_def test_doc_b_def)
  from compliant_has_no_missing_items [of test_doc_a] h1 h2
  have "missing_items (checker (PROVISIONS ! 13) test_doc_a) = []"
    by blast
  moreover from compliant_has_no_missing_items [of test_doc_b] h3
  have "missing_items (section_137 test_doc_b) = s137_prejudice_factors (evidence test_doc_b)"
    by blast
  then have "missing_items (section_137 test_doc_b) = [''Highly prejudicial character evidence'']"
    by (simp add: test_doc_b_def)
  ultimately show ?thesis using h1 h2 h3 by simp
qed

subsection \<open>The defect report\<close>

lemma fold_add:
  "fold (\<lambda>defect report. add report defect) ds r =
     r\<lparr>high := high r @ filter (\<lambda>d. severity d = HIGH) ds,
       medium := medium r @ filter (\<lambda>d. severity d = MEDIUM) ds,
       low := low r @ filter (\<lambda>d. severity d = LOW) ds\<rparr>"
proof (induction ds arbitrary: r)
  case Nil
  show ?case by simp
next
  case (Cons d ds)
  have "fold (\<lambda>defect report. add report defect) (d # ds) r =
          fold (\<lambda>defect report. add report defect) ds (add r d)"
    by simp
  also have "\<dots> = (add r d)
       \<lparr>high := high (add r d) @ filter (\<lambda>d. severity d = HIGH) ds,
        medium := medium (add r d) @ filter (\<lambda>d. severity d = MEDIUM) ds,
        low := low (add r d) @ filter (\<lambda>d. severity d = LOW) ds\<rparr>"
    by (rule Cons.IH)
  also have "\<dots> = r
       \<lparr>high := high r @ filter (\<lambda>d. severity d = HIGH) (d # ds),
        medium := medium r @ filter (\<lambda>d. severity d = MEDIUM) (d # ds),
        low := low r @ filter (\<lambda>d. severity d = LOW) (d # ds)\<rparr>"
    by (cases "severity d") (simp_all add: add_def)
  finally show ?case .
qed

lemma shared_dates_loop_result:
  assumes "set ks \<subseteq> fset (fmdom (key_dates a) |\<inter>| fmdom (key_dates b))"
  shows "\<exists>cross. shared_dates_loop a b ks r = Inr (r\<lparr>medium := medium r @ cross\<rparr>)
     \<and> list_all2 (reports_key a b) (filter (date_conflict a b) ks) cross"
  using assms
proof (induction ks arbitrary: r)
  case Nil
  show ?case by simp
next
  case (Cons k ks)
  from Cons.prems obtain date_a date_b
    where la: "fmlookup (key_dates a) k = Some date_a"
      and lb: "fmlookup (key_dates b) k = Some date_b"
    by (auto simp: fmlookup_dom_iff)
  from Cons.prems have sub: "set ks \<subseteq> fset (fmdom (key_dates a) |\<inter>| fmdom (key_dates b))"
    by simp
  show ?case
  proof (cases "date_a \<noteq> [] \<and> date_b \<noteq> [] \<and> date_a \<noteq> date_b")
    case True
    let ?d = "inconsistent_date_defect k date_a date_b"
    from Cons.IH [OF sub, of "add r ?d"]
    obtain cross where
      c1: "shared_dates_loop a b ks (add r ?d) =
             Inr ((add r ?d)\<lparr>medium := medium (add r ?d) @ cross\<rparr>)"
      and c2: "list_all2 (reports_key a b) (filter (date_conflict a b) ks) cross"
      by blast
    have sev: "severity ?d = MEDIUM"
      by (simp add: inconsistent_date_defect_def)
    have step: "shared_dates_loop a b (k # ks) r = shared_dates_loop a b ks (add r ?d)"
      using True la lb by simp
    have "(add r ?d)\<lparr>medium := medium (add r ?d) @ cross\<rparr> =
            r\<lparr>medium := medium r @ ?d # cross\<rparr>"
      using sev by (simp add: add_def)
    with step c1 have res: "shared_dates_loop a b (k # ks) r =
            Inr (r\<lparr>medium := medium r @ ?d # cross\<rparr>)"
      by simp
    have conflict: "date_conflict a b k"
      using True la lb by simp
    have rep: "reports_key a b k ?d"
      using la lb by simp
    from conflict have "filter (date_conflict a b) (k # ks) = k # filter (date_conflict a b) ks"
      by simp
    with rep c2 have "list_all2 (reports_key a b) (filter (date_conflict a b) (k # ks)) (?d # cross)"
      by simp
    with res show ?thesis by blast
  next
    case False
    from Cons.IH [OF sub, of r]
    obtain cross where
      c1: "shared_dates_loop a b ks r = Inr (r\<lparr>medium := medium r @ cross\<rparr>)"
      and c2: "list_all2 (reports_key a b) (filter (date_conflict a b) ks) cross"
      by blast
    have step: "shared_dates_loop a b (k # ks) r = shared_dates_loop a b ks r"
      using False la lb by auto
    have "\<not> date_conflict a b k"
      using False la lb by auto
    then have "filter (date_conflict a b) (k # ks) = filter (date_conflict a b) ks"
      by simp
    with step c1 c2 show ?thesis by auto
  qed
qed

lemma sorted_list_of_fset_sorted: "sorted (sorted_list_of_fset S)"
  by (simp add: sorted_list_of_fset.rep_eq)

lemma sorted_list_of_fset_distinct: "distinct (sorted_list_of_fset S)"
  by (simp add: sorted_list_of_fset.rep_eq)

lemma identify_defects_result:
  "\<exists>cross. identify_defects lower a b =
      Inr \<lparr>high = filter (\<lambda>d. severity d = HIGH) (identify_doc_defects lower a @ identify_doc_defects lower b),
           medium = filter (\<lambda>d. severity d = MEDIUM)
                      (identify_doc_defects lower a @ identify_doc_defects lower b) @ cross,
           low = filter (\<lambda>d. severity d = LOW) (identify_doc_defects lower a @ identify_doc_defects lower b)\<rparr>
    \<and> list_all2 (reports_key a b)
         (filter (date_conflict a b)
            (sorted_list_of_fset (fmdom (key_dates a) |\<inter>| fmdom (key_dates b))))
         cross"
proof -
  let ?ks = "sorted_list_of_fset (fmdom (key_dates a) |\<inter>| fmdom (key_dates b))"
  let ?r = "fold (\<lambda>defect report. add report defect) (identify_doc_defects lower b)
              (fold (\<lambda>defect report. add report defect) (identify_doc_defects lower a)
                 \<lparr>high = [], medium = [], low = []\<rparr>)"
  have sub: "set ?ks \<subseteq> fset (fmdom (key_dates a) |\<inter>| fmdom (key_dates b))"
    by simp
  from shared_dates_loop_result [OF sub, of ?r]
  obtain cross where
    c1: "shared_dates_loop a b ?ks ?r = Inr (?r\<lparr>medium := medium ?r @ cross\<rparr>)"
    and c2: "list_all2 (reports_key a b) (filter (date_conflict a b) ?ks) cross"
    by blast
  have "identify_defects lower a b = shared_dates_loop a b ?ks ?r"
    by (simp add: identify_defects_def Let_def)
  with c1 have "identify_defects lower a b = Inr (?r\<lparr>medium := medium ?r @ cross\<rparr>)"
    by simp
  then have "identify_defects lower a b =
      Inr \<lparr>high = filter (\<lambda>d. severity d = HIGH) (identify_doc_defects lower a @ identify_doc_defects lower b),
           medium = filter (\<lambda>d. severity d = MEDIUM)
                      (identify_doc_defects lower a @ identify_doc_defects lower b) @ cross,
           low = filter (\<lambda>d. severity d = LOW) (identify_doc_defects lower a @ identify_doc_defects lower b)\<rparr>"
    by (simp add: fold_add)
  with c2 show ?thesis by blast
qed

text \<open>
  C7. \<open>_identify_defects\<close> returns a report. Its \<open>high\<close> and \<open>low\<close> lists hold the
  per-document defects only; its \<open>medium\<close> list holds the per-document defects followed by
  the cross-document date defects \<open>cross\<close>. These correspond one to one, in order, to the
  keys \<open>ks\<close>: each key occurs once in \<open>ks\<close>, and a key is in \<open>ks\<close> exactly when both
  documents have a date under it, both dates are non-empty and the dates differ. The defect
  of a key has severity \<open>MEDIUM\<close>, is attributed to "Doc A \& Doc B" and names the key and
  both dates. So a key absent from either mapping, or with equal dates, or with an empty
  date, produces no cross-document defect.
\<close>

theorem cross_document_date_defects:
  "\<exists>report ks cross.
     identify_defects lower a b = Inr report
     \<and> high report =
         filter (\<lambda>d. severity d = HIGH) (identify_doc_defects lower a @ identify_doc_defects lower b)
     \<and> low report =
         filter (\<lambda>d. severity d = LOW) (identify_doc_defects lower a @ identify_doc_defects lower b)
     \<and> medium report =
         filter (\<lambda>d. severity d = MEDIUM) (identify_doc_defects lower a @ identify_doc_defects lower b)
         @ cross
     \<and> sorted ks \<and> distinct ks
     \<and> set ks = {k. \<exists>date_a date_b.
           fmlookup (key_dates a) k = Some date_a \<and> fmlookup (key_dates b) k = Some date_b
           \<and> date_a \<noteq> [] \<and> date_b \<noteq> [] \<and> date_a \<noteq> date_b}
     \<and> list_all2
         (\<lambda>k d. \<exists>date_a date_b.
            fmlookup (key_dates a) k = Some date_a \<and> fmlookup (key_dates b) k = Some date_b
            \<and> d = \<lparr>document = ''Doc A & Doc B'',
                    Defect.description =
                      ''Inconsistent '' @ k @ '' date: Doc A '' @ date_a @ '' vs Doc B '' @ date_b,
                    severity = MEDIUM, statutory_reference = None\<rparr>)
         ks cross"
proof -
  let ?all = "sorted_list_of_fset (fmdom (key_dates a) |\<inter>| fmdom (key_dates b))"
  let ?ks = "filter (date_conflict a b) ?all"
  from identify_defects_result [of lower a b] obtain cross where
    r: "identify_defects lower a b =
      Inr \<lparr>high = filter (\<lambda>d. severity d = HIGH) (identify_doc_defects lower a @ identify_doc_defects lower b),
           medium = filter (\<lambda>d. severity d = MEDIUM)
                      (identify_doc_defects lower a @ identify_doc_defects lower b) @ cross,
           low = filter (\<lambda>d. severity d = LOW) (identify_doc_defects lower a @ identify_doc_defects lower b)\<rparr>"
    and c: "list_all2 (reports_key a b) ?ks cross"
    by blast
  have s: "sorted ?ks"
    by (rule sorted_wrt_filter) (rule sorted_list_of_fset_sorted)
  have d: "distinct ?ks"
    by (simp add: sorted_list_of_fset_distinct)
  have m: "set ?ks = {k. date_conflict a b k}"
    by (auto simp: fmlookup_dom_iff)
  from c have c': "list_all2
         (\<lambda>k d. \<exists>date_a date_b.
            fmlookup (key_dates a) k = Some date_a \<and> fmlookup (key_dates b) k = Some date_b
            \<and> d = \<lparr>document = ''Doc A & Doc B'',
                    Defect.description =
                      ''Inconsistent '' @ k @ '' date: Doc A '' @ date_a @ '' vs Doc B '' @ date_b,
                    severity = MEDIUM, statutory_reference = None\<rparr>)
         ?ks cross"
    by (simp add: inconsistent_date_defect_def)
  from r s d m c' show ?thesis by force
qed

theorem cross_document_date_defects_witness:
  "\<exists>report. identify_defects ascii_lower test_doc_a test_doc_b = Inr report
     \<and> \<lparr>document = ''Doc A & Doc B'',
         Defect.description = ''Inconsistent offence date: Doc A 2024-05-10 vs Doc B 2024-05-11'',
         severity = MEDIUM, statutory_reference = None\<rparr> \<in> set (medium report)"
proof -
  let ?P = "\<lambda>k d. \<exists>date_a date_b.
            fmlookup (key_dates test_doc_a) k = Some date_a
            \<and> fmlookup (key_dates test_doc_b) k = Some date_b
            \<and> d = \<lparr>document = ''Doc A & Doc B'',
                    Defect.description =
                      ''Inconsistent '' @ k @ '' date: Doc A '' @ date_a @ '' vs Doc B '' @ date_b,
                    severity = MEDIUM, statutory_reference = None\<rparr>"
  from cross_document_date_defects [of ascii_lower test_doc_a test_doc_b]
  obtain report ks cross where
    r: "identify_defects ascii_lower test_doc_a test_doc_b = Inr report"
    and m: "medium report =
         filter (\<lambda>d. severity d = MEDIUM)
           (identify_doc_defects ascii_lower test_doc_a @ identify_doc_defects ascii_lower test_doc_b) @ cross"
    and k: "set ks = {k. \<exists>date_a date_b.
           fmlookup (key_dates test_doc_a) k = Some date_a
           \<and> fmlookup (key_dates test_doc_b) k = Some date_b
           \<and> date_a \<noteq> [] \<and> date_b \<noteq> [] \<and> date_a \<noteq> date_b}"
    and c: "list_all2 ?P ks cross"
    by blast
  have la: "fmlookup (key_dates test_doc_a) ''offence'' = Some ''2024-05-10''"
    by (simp add: test_doc_a_def)
  have lb: "fmlookup (key_dates test_doc_b) ''offence'' = Some ''2024-05-11''"
    by (simp add: test_doc_b_def)
  from la lb k have "''offence'' \<in> set ks"
    by simp
  then obtain i where i: "i < length ks" "ks ! i = ''offence''"
    by (auto simp: in_set_conv_nth)
  from c i have "?P ''offence'' (cross ! i)" and "i < length cross"
    by (auto simp: list_all2_conv_all_nth)
  with la lb have "\<lparr>document = ''Doc A & Doc B'',
         Defect.description = ''Inconsistent offence date: Doc A 2024-05-10 vs Doc B 2024-05-11'',
         severity = MEDIUM, statutory_reference = None\<rparr> \<in> set cross"
    by (auto simp: in_set_conv_nth)
  with r m show ?thesis by simp
qed

subsection \<open>The cross-reference matrix\<close>

lemma cross_reference_rows_total:
  assumes "\<And>p. p \<in> set ps \<Longrightarrow> map_of ra (StatutoryProvision.key p) = Some (f p)"
    and "\<And>p. p \<in> set ps \<Longrightarrow> map_of rb (StatutoryProvision.key p) = Some (g p)"
  shows "cross_reference_rows lower ra rb ps = Inr (map (\<lambda>p. cross_reference_row lower p (f p) (g p)) ps)"
  using assms by (induction ps) (simp_all add: getitem_def)

lemma build_cross_reference_rows:
  "build_cross_reference lower a b =
     Inr (map (\<lambda>p. cross_reference_row lower p (checker p a) (checker p b)) PROVISIONS)"
  unfolding build_cross_reference_def
  by (rule cross_reference_rows_total) (simp_all add: lookup_evaluate_document)

lemma cross_reference_row_sel:
  "statutory_provision (cross_reference_row lower p sa sb) = label p"
  "doc_a (cross_reference_row lower p sa sb) = sa"
  "doc_b (cross_reference_row lower p sa sb) = sb"
  "discrepancies (cross_reference_row lower p sa sb) = summarise_discrepancies sa sb"
  by (simp_all add: cross_reference_row_def Let_def)

lemma action_required_for_empty:
  "(action_required_for lower lbl st = []) = (status st = COMPLIANT)"
  by (simp add: action_required_for_def)

lemma action_required_for_head:
  "status st \<noteq> COMPLIANT \<Longrightarrow> \<exists>rest. action_required_for lower (c # lbl) st = c # rest"
  by (simp add: action_required_for_def)

lemma row_action_none:
  "(action_required (cross_reference_row lower p sa sb) = ''None'') =
     (status sa = COMPLIANT \<and> status sb = COMPLIANT)"
proof (cases "status sa = COMPLIANT")
  case True
  note ca = True
  show ?thesis
  proof (cases "status sb = COMPLIANT")
    case True
    with ca show ?thesis
      by (simp add: cross_reference_row_def action_required_for_empty)
  next
    case False
    then obtain rest where "action_required_for lower ''Doc B'' sb = CHR ''D'' # rest"
      using action_required_for_head [where st = sb and c = "CHR ''D''" and lbl = "''oc B''" and lower = lower] by auto
    with ca False show ?thesis
      by (simp add: cross_reference_row_def action_required_for_empty)
  qed
next
  case False
  then obtain rest where ra: "action_required_for lower ''Doc A'' sa = CHR ''D'' # rest"
    using action_required_for_head [where st = sa and c = "CHR ''D''" and lbl = "''oc A''" and lower = lower] by auto
  show ?thesis
  proof (cases "action_required_for lower ''Doc B'' sb = []")
    case True
    with ra False show ?thesis by (simp add: cross_reference_row_def)
  next
    case nb: False
    with ra False show ?thesis by (simp add: cross_reference_row_def)
  qed
qed

lemma summarise_discrepancies_none:
  "(summarise_discrepancies x y = ''None'') =
     (status x = status y \<and>
      (set (missing_items x) - set (missing_items y)) \<union>
      (set (missing_items y) - set (missing_items x)) = {})"
  by (simp add: summarise_discrepancies_def Let_def)

text \<open>
  C2. For every pair of documents \<open>build_phase_b_report\<close> returns a report whose
  cross-reference matrix has exactly 15 rows, one per registry provision in the order of
  the registry (the labels are the registry's labels, the two statuses of a row are the
  results of that provision's evaluator on the two documents); and the per-document
  evaluation has exactly the 15 registry keys, each once, in that order.
\<close>

theorem matrix_has_one_row_per_provision:
  "\<exists>report. build_phase_b_report lower a b = Inr report
     \<and> length (cross_reference_matrix report) = 15
     \<and> map statutory_provision (cross_reference_matrix report) = map label PROVISIONS
     \<and> map doc_a (cross_reference_matrix report) = map snd (evaluate_document a)
     \<and> map doc_b (cross_reference_matrix report) = map snd (evaluate_document b)
     \<and> map fst (evaluate_document a) = map StatutoryProvision.key PROVISIONS
     \<and> map fst (evaluate_document b) = map StatutoryProvision.key PROVISIONS
     \<and> distinct (map StatutoryProvision.key PROVISIONS)
     \<and> length PROVISIONS = 15"
proof -
  from identify_defects_result [of lower a b] obtain found where
    f: "identify_defects lower a b = Inr found"
    by blast
  have len: "length PROVISIONS = 15"
    by (simp add: PROVISIONS_def)
  let ?rows = "map (\<lambda>p. cross_reference_row lower p (checker p a) (checker p b)) PROVISIONS"
  have "build_phase_b_report lower a b =
          Inr \<lparr>cross_reference_matrix = ?rows, defects = found,
               omissions = omissions_between lower a b\<rparr>"
    by (simp add: build_phase_b_report_def build_cross_reference_rows f)
  moreover have "length ?rows = 15"
    by (simp add: len)
  moreover have "map statutory_provision ?rows = map label PROVISIONS"
    by (simp add: cross_reference_row_sel o_def)
  moreover have "map doc_a ?rows = map snd (evaluate_document a)"
    by (simp add: cross_reference_row_sel evaluate_document_registry o_def)
  moreover have "map doc_b ?rows = map snd (evaluate_document b)"
    by (simp add: cross_reference_row_sel evaluate_document_registry o_def)
  moreover have "map fst (evaluate_document a) = map StatutoryProvision.key PROVISIONS"
    by (simp add: evaluate_document_registry o_def)
  moreover have "map fst (evaluate_document b) = map StatutoryProvision.key PROVISIONS"
    by (simp add: evaluate_document_registry o_def)
  ultimately show ?thesis
    using distinct_registry_keys len by simp
qed

theorem matrix_has_one_row_per_provision_witness:
  "\<exists>report. build_phase_b_report ascii_lower test_doc_a test_doc_b = Inr report
     \<and> length (cross_reference_matrix report) = 15
     \<and> map statutory_provision (cross_reference_matrix report) ! 12 =
         ''Evidence Act 2008 s.69 '' @ en_dash @ '' Business records foundation''"
  using matrix_has_one_row_per_provision [of ascii_lower test_doc_a test_doc_b]
  by (auto simp: PROVISIONS_def)

text \<open>
  C3. In every row of the cross-reference matrix of any two documents, \<open>action_required\<close>
  is the string "None" exactly when both statuses of the row are \<open>COMPLIANT\<close>; the same
  holds for the row built from any two check results.
\<close>

theorem action_required_none_iff:
  "(\<exists>rows. build_cross_reference lower a b = Inr rows
      \<and> (\<forall>row \<in> set rows.
            (action_required row = ''None'') =
            (status (doc_a row) = COMPLIANT \<and> status (doc_b row) = COMPLIANT)))
   \<and> (action_required (cross_reference_row lower p sa sb) = ''None'') =
       (status sa = COMPLIANT \<and> status sb = COMPLIANT)"
  by (simp add: build_cross_reference_rows row_action_none cross_reference_row_sel)

theorem action_required_none_iff_witness:
  "\<exists>rows. build_cross_reference ascii_lower test_doc_a test_doc_b = Inr rows
     \<and> hd rows \<in> set rows
     \<and> status (doc_b (hd rows)) = NON_COMPLIANT
     \<and> action_required (hd rows) \<noteq> ''None''"
proof -
  from action_required_none_iff [of ascii_lower test_doc_a test_doc_b]
  obtain rows where
    r: "build_cross_reference ascii_lower test_doc_a test_doc_b = Inr rows"
    and a: "\<forall>row \<in> set rows.
            (action_required row = ''None'') =
            (status (doc_a row) = COMPLIANT \<and> status (doc_b row) = COMPLIANT)"
    by blast
  from r have rows: "rows = map (\<lambda>p. cross_reference_row ascii_lower p (checker p test_doc_a)
                                  (checker p test_doc_b)) PROVISIONS"
    by (simp add: build_cross_reference_rows)
  have h: "hd rows \<in> set rows"
    by (simp add: rows PROVISIONS_def)
  have "doc_b (hd rows) = disclosure_items test_doc_b"
    by (simp add: rows PROVISIONS_def cross_reference_row_sel)
  then have s: "status (doc_b (hd rows)) = NON_COMPLIANT"
    by (simp add: disclosure_items_def missing_mandatory_items_def test_doc_b_def)
  from a h s have "action_required (hd rows) \<noteq> ''None''"
    by auto
  with r h s show ?thesis by blast
qed

lemma summarise_discrepancies_cases:
  assumes D: "D = (set (missing_items x) - set (missing_items y))
                  \<union> (set (missing_items y) - set (missing_items x))"
  shows "status x \<noteq> status y \<and> D = {} \<longrightarrow>
           summarise_discrepancies x y =
             ''Status differs (Doc A: '' @ colour (status x) @ '', Doc B: '' @
             colour (status y) @ '')''"
    and "status x = status y \<and> D \<noteq> {} \<longrightarrow>
           summarise_discrepancies x y =
             ''Missing elements differ: '' @ join '', '' (sorted_list_of_set D)"
    and "status x \<noteq> status y \<and> D \<noteq> {} \<longrightarrow>
           summarise_discrepancies x y =
             ''Status differs (Doc A: '' @ colour (status x) @ '', Doc B: '' @
             colour (status y) @ '')'' @ ''; '' @
             ''Missing elements differ: '' @ join '', '' (sorted_list_of_set D)"
  unfolding D by (simp_all add: summarise_discrepancies_def Let_def)

text \<open>
  C4. The cross-reference matrix of any two documents has one row per registry provision,
  and the row of a provision holds the results \<open>x\<close> and \<open>y\<close> of that provision's
  evaluator on the two documents. With \<open>D\<close> the symmetric difference of the sets of their
  missing items, \<open>discrepancies\<close> of the row is "None" exactly when the statuses of \<open>x\<close>
  and \<open>y\<close> are equal and \<open>D\<close> is empty. Otherwise it is the status mismatch in colour codes
  when only the statuses differ, the sorted elements of \<open>D\<close> joined by ", " when only
  \<open>D\<close> is non-empty, and the first, "; " and the second when both hold.
\<close>

theorem discrepancies_none_iff:
  "\<exists>rows. build_cross_reference lower a b = Inr rows
     \<and> length rows = length PROVISIONS
     \<and> (\<forall>i x y D.
           i < length PROVISIONS
           \<and> x = checker (PROVISIONS ! i) a
           \<and> y = checker (PROVISIONS ! i) b
           \<and> D = (set (missing_items x) - set (missing_items y))
                 \<union> (set (missing_items y) - set (missing_items x))
           \<longrightarrow>
             doc_a (rows ! i) = x
           \<and> doc_b (rows ! i) = y
           \<and> (discrepancies (rows ! i) = ''None'') = (status x = status y \<and> D = {})
           \<and> (status x \<noteq> status y \<and> D = {} \<longrightarrow>
                discrepancies (rows ! i) =
                  ''Status differs (Doc A: '' @ colour (status x) @ '', Doc B: '' @
                  colour (status y) @ '')'')
           \<and> (status x = status y \<and> D \<noteq> {} \<longrightarrow>
                discrepancies (rows ! i) =
                  ''Missing elements differ: '' @ join '', '' (sorted_list_of_set D))
           \<and> (status x \<noteq> status y \<and> D \<noteq> {} \<longrightarrow>
                discrepancies (rows ! i) =
                  ''Status differs (Doc A: '' @ colour (status x) @ '', Doc B: '' @
                  colour (status y) @ '')'' @ ''; '' @
                  ''Missing elements differ: '' @ join '', '' (sorted_list_of_set D)))"
proof -
  let ?rows = "map (\<lambda>p. cross_reference_row lower p (checker p a) (checker p b)) PROVISIONS"
  have r: "build_cross_reference lower a b = Inr ?rows"
    by (rule build_cross_reference_rows)
  have len: "length ?rows = length PROVISIONS"
    by simp
  have "doc_a (?rows ! i) = x
           \<and> doc_b (?rows ! i) = y
           \<and> (discrepancies (?rows ! i) = ''None'') = (status x = status y \<and> D = {})
           \<and> (status x \<noteq> status y \<and> D = {} \<longrightarrow>
                discrepancies (?rows ! i) =
                  ''Status differs (Doc A: '' @ colour (status x) @ '', Doc B: '' @
                  colour (status y) @ '')'')
           \<and> (status x = status y \<and> D \<noteq> {} \<longrightarrow>
                discrepancies (?rows ! i) =
                  ''Missing elements differ: '' @ join '', '' (sorted_list_of_set D))
           \<and> (status x \<noteq> status y \<and> D \<noteq> {} \<longrightarrow>
                discrepancies (?rows ! i) =
                  ''Status differs (Doc A: '' @ colour (status x) @ '', Doc B: '' @
                  colour (status y) @ '')'' @ ''; '' @
                  ''Missing elements differ: '' @ join '', '' (sorted_list_of_set D))"
    if i: "i < length PROVISIONS"
      and x: "x = checker (PROVISIONS ! i) a"
      and y: "y = checker (PROVISIONS ! i) b"
      and D: "D = (set (missing_items x) - set (missing_items y))
                 \<union> (set (missing_items y) - set (missing_items x))"
    for i x y D
  proof -
    have row: "?rows ! i = cross_reference_row lower (PROVISIONS ! i) x y"
      using i x y by simp
    have none: "(summarise_discrepancies x y = ''None'') = (status x = status y \<and> D = {})"
      unfolding D by (rule summarise_discrepancies_none)
    show ?thesis
      unfolding row cross_reference_row_sel
      using none summarise_discrepancies_cases [OF D] by blast
  qed
  then have "\<forall>i x y D.
           i < length PROVISIONS
           \<and> x = checker (PROVISIONS ! i) a
           \<and> y = checker (PROVISIONS ! i) b
           \<and> D = (set (missing_items x) - set (missing_items y))
                 \<union> (set (missing_items y) - set (missing_items x))
           \<longrightarrow>
             doc_a (?rows ! i) = x
           \<and> doc_b (?rows ! i) = y
           \<and> (discrepancies (?rows ! i) = ''None'') = (status x = status y \<and> D = {})
           \<and> (status x \<noteq> status y \<and> D = {} \<longrightarrow>
                discrepancies (?rows ! i) =
                  ''Status differs (Doc A: '' @ colour (status x) @ '', Doc B: '' @
                  colour (status y) @ '')'')
           \<and> (status x = status y \<and> D \<noteq> {} \<longrightarrow>
                discrepancies (?rows ! i) =
                  ''Missing elements differ: '' @ join '', '' (sorted_list_of_set D))
           \<and> (status x \<noteq> status y \<and> D \<noteq> {} \<longrightarrow>
                discrepancies (?rows ! i) =
                  ''Status differs (Doc A: '' @ colour (status x) @ '', Doc B: '' @
                  colour (status y) @ '')'' @ ''; '' @
                  ''Missing elements differ: '' @ join '', '' (sorted_list_of_set D))"
    by blast
  with r len show ?thesis by blast
qed

theorem discrepancies_none_iff_witness:
  "\<exists>rows. build_cross_reference ascii_lower test_doc_a test_doc_b = Inr rows
     \<and> status (doc_a (rows ! 2)) = COMPLIANT
     \<and> status (doc_b (rows ! 2)) = NON_COMPLIANT
     \<and> discrepancies (rows ! 2) = ''Status differs (Doc A: GREEN, Doc B: RED)''
     \<and> status (doc_a (rows ! 10)) = status (doc_b (rows ! 10))
     \<and> discrepancies (rows ! 10) = ''None''"
proof -
  let ?x2 = "checker (PROVISIONS ! 2) test_doc_a"
  let ?y2 = "checker (PROVISIONS ! 2) test_doc_b"
  let ?x10 = "checker (PROVISIONS ! 10) test_doc_a"
  let ?y10 = "checker (PROVISIONS ! 10) test_doc_b"
  have x2: "?x2 = \<lparr>status = COMPLIANT, message = ''Disclosure served within s.186 timeframe'',
                    missing_items = []\<rparr>"
    by (simp add: PROVISIONS_def disclosure_timing_def test_doc_a_def)
  have y2: "?y2 = \<lparr>status = NON_COMPLIANT, message = ''Served five days late'',
                    missing_items = []\<rparr>"
    by (simp add: PROVISIONS_def disclosure_timing_def test_doc_b_def)
  have x10: "?x10 = \<lparr>status = COMPLIANT, message = ''Hearsay issues identified under s.59'',
                      missing_items = []\<rparr>"
    by (simp add: PROVISIONS_def hearsay_flagged_def test_doc_a_def)
  have y10: "?y10 = \<lparr>status = COMPLIANT, message = ''Hearsay issues identified under s.59'',
                      missing_items = []\<rparr>"
    by (simp add: PROVISIONS_def hearsay_flagged_def test_doc_b_def)
  have len: "length PROVISIONS = 15"
    by (simp add: PROVISIONS_def)
  from discrepancies_none_iff [of ascii_lower test_doc_a test_doc_b]
  obtain rows where
    r: "build_cross_reference ascii_lower test_doc_a test_doc_b = Inr rows"
    and a: "\<And>i x y D.
           i < length PROVISIONS
           \<and> x = checker (PROVISIONS ! i) test_doc_a
           \<and> y = checker (PROVISIONS ! i) test_doc_b
           \<and> D = (set (missing_items x) - set (missing_items y))
                 \<union> (set (missing_items y) - set (missing_items x))
           \<Longrightarrow>
             doc_a (rows ! i) = x
           \<and> doc_b (rows ! i) = y
           \<and> (discrepancies (rows ! i) = ''None'') = (status x = status y \<and> D = {})
           \<and> (status x \<noteq> status y \<and> D = {} \<longrightarrow>
                discrepancies (rows ! i) =
                  ''Status differs (Doc A: '' @ colour (status x) @ '', Doc B: '' @
                  colour (status y) @ '')'')"
    by blast
  from a [of 2 ?x2 ?y2 "{}"] len
  have "doc_a (rows ! 2) = ?x2 \<and> doc_b (rows ! 2) = ?y2
        \<and> discrepancies (rows ! 2) =
            ''Status differs (Doc A: '' @ colour (status ?x2) @ '', Doc B: '' @
            colour (status ?y2) @ '')''"
    by (simp add: x2 y2)
  then have two: "status (doc_a (rows ! 2)) = COMPLIANT
        \<and> status (doc_b (rows ! 2)) = NON_COMPLIANT
        \<and> discrepancies (rows ! 2) = ''Status differs (Doc A: GREEN, Doc B: RED)''"
    by (simp add: x2 y2)
  from a [of 10 ?x10 ?y10 "{}"] len
  have ten: "status (doc_a (rows ! 10)) = status (doc_b (rows ! 10))
        \<and> discrepancies (rows ! 10) = ''None''"
    by (simp add: x10 y10)
  from r two ten show ?thesis by blast
qed

subsection \<open>Lookups by name in the court knowledge base\<close>

lemma stages_new_checker:
  "stages new_checker =
     [(''contest_mention'', CONTEST_MENTION_STAGE),
      (''summary_case_conference'', SUMMARY_CASE_CONFERENCE),
      (''summary_hearing'', SUMMARY_HEARING_STAGE)]"
  by (simp add: new_checker_def CONTEST_MENTION_STAGE_def SUMMARY_CASE_CONFERENCE_def
      SUMMARY_HEARING_STAGE_def)

text \<open>
  C9. \<open>evaluate_stage\<close> of a new checker raises \<open>KeyError\<close> exactly when the stage name is
  not one of \<open>contest_mention\<close>, \<open>summary_case_conference\<close>, \<open>summary_hearing\<close>, and
  \<open>evaluate_disclosure_section\<close> raises \<open>KeyError\<close> exactly when the section is neither
  \<open>prosecution\<close> nor \<open>defence\<close>; for a known name each returns, without error, the items
  of that checklist that \<open>provided\<close> does not map to \<open>True\<close>.
\<close>

theorem unknown_names_raise_key_error:
  "((\<exists>e. evaluate_stage new_checker stage_name provided = Inl e) \<longleftrightarrow>
      stage_name \<notin> {''contest_mention'', ''summary_case_conference'', ''summary_hearing''})
   \<and> (stage_name \<notin> {''contest_mention'', ''summary_case_conference'', ''summary_hearing''} \<longrightarrow>
        evaluate_stage new_checker stage_name provided =
          Inl (KeyError (''Unknown procedure stage: '' @ stage_name)))
   \<and> evaluate_stage new_checker ''contest_mention'' provided =
        Inr (filter (\<lambda>item. provided (ChecklistItem.key item) \<noteq> Some True)
               (items CONTEST_MENTION_STAGE))
   \<and> evaluate_stage new_checker ''summary_case_conference'' provided =
        Inr (filter (\<lambda>item. provided (ChecklistItem.key item) \<noteq> Some True)
               (items SUMMARY_CASE_CONFERENCE))
   \<and> evaluate_stage new_checker ''summary_hearing'' provided =
        Inr (filter (\<lambda>item. provided (ChecklistItem.key item) \<noteq> Some True)
               (items SUMMARY_HEARING_STAGE))
   \<and> ((\<exists>e. evaluate_disclosure_section section provided = Inl e) \<longleftrightarrow>
        section \<notin> {''prosecution'', ''defence''})
   \<and> (section \<notin> {''prosecution'', ''defence''} \<longrightarrow>
        evaluate_disclosure_section section provided =
          Inl (KeyError (''Unknown disclosure section: '' @ section)))
   \<and> (section \<in> {''prosecution'', ''defence''} \<longrightarrow>
        (\<exists>its. map_of DISCLOSURE_COMPLIANCE_MATRIX section = Some its
           \<and> evaluate_disclosure_section section provided =
               Inr (filter (\<lambda>item. provided (ChecklistItem.key item) \<noteq> Some True) its)))"
  by (auto simp: evaluate_stage_def stages_new_checker getitem_def missing_from_def
      evaluate_disclosure_section_def DISCLOSURE_COMPLIANCE_MATRIX_def)

theorem unknown_names_raise_key_error_witness:
  "''appeal'' \<notin> {''contest_mention'', ''summary_case_conference'', ''summary_hearing''}
   \<and> evaluate_stage new_checker ''appeal'' [''voir_dire_foreshadowed'' \<mapsto> True] =
        Inl (KeyError ''Unknown procedure stage: appeal'')
   \<and> ''civil'' \<notin> {''prosecution'', ''defence''}
   \<and> evaluate_disclosure_section ''civil'' [''voir_dire_foreshadowed'' \<mapsto> True] =
        Inl (KeyError ''Unknown disclosure section: civil'')
   \<and> evaluate_stage new_checker ''summary_hearing'' [''voir_dire_foreshadowed'' \<mapsto> True] =
        Inr [checklist_item ''prosecution_case_outline'' ''Prosecution case outline filed'' None,
             checklist_item ''witness_availability_confirmed'' ''Witness availability confirmed''
               None]"
  using unknown_names_raise_key_error
    [of "''appeal''" "[''voir_dire_foreshadowed'' \<mapsto> True]" "''civil''"]
  by (simp add: SUMMARY_HEARING_STAGE_def checklist_item_def)

end
